theory Spec2Isabelle
  imports Complex_Main "HOL-Library.Product_Lexorder" "HOL-Library.Multiset"
begin

section \<open>Values shared by the services\<close>

text \<open>
  Identifiers are UUID strings. A vector is a list of numbers; the dimension 1024 of the
  schema plays no role in what follows, and the examples use short vectors. JSON values:
  an object is the list of its key/value pairs.
\<close>

type_synonym uuid = string
type_synonym vector = "real list"

datatype json =
    JNull
  | JBool bool
  | JNum real
  | JStr string
  | JArr "json list"
  | JObj "(string \<times> json) list"

text \<open>
  A value of the SQL type \<open>float\<close> as the search function meets it: a number or NaN (the
  cosine distance of a zero vector). PostgreSQL treats NaN as equal to itself and greater
  than every number, in comparisons and in \<open>ORDER BY\<close>. Rounding is outside the model.
\<close>

datatype pg_float = Num real | NaN

text \<open>\<open>1 - x\<close>.\<close>

fun pg_one_minus :: "pg_float \<Rightarrow> pg_float" where
  "pg_one_minus (Num d) = Num (1 - d)"
| "pg_one_minus NaN = NaN"

text \<open>\<open>x > t\<close> for a number \<open>t\<close>.\<close>

fun pg_greater :: "pg_float \<Rightarrow> real \<Rightarrow> bool" where
  "pg_greater (Num x) t = (x > t)"
| "pg_greater NaN t = True"

text \<open>The place of a value in ascending order: numbers by their value, then NaN.\<close>

fun pg_order :: "pg_float \<Rightarrow> bool \<times> real" where
  "pg_order (Num x) = (False, x)"
| "pg_order NaN = (True, 0)"

section \<open>Knowledge store and the similarity search function\<close>

text \<open>
  Rows of the table \<open>knowledge_documents\<close> (migration \<open>initial_schema.sql\<close>). The column
  \<open>embedding\<close> is nullable, and so is \<open>file_id\<close>.
\<close>

record knowledge_document =
  doc_id :: uuid
  doc_knowledge_base_id :: uuid
  doc_file_id :: "uuid option"
  doc_content :: string
  doc_metadata :: "(string \<times> json) list"
  doc_embedding :: "vector option"

text \<open>One row of the result table of \<open>match_knowledge_documents\<close>.\<close>

record match_row =
  row_id :: uuid
  row_knowledge_base_id :: uuid
  row_content :: string
  row_metadata :: "(string \<times> json) list"
  row_similarity :: "pg_float option"

datatype store_error = StoreError string

text \<open>
  The pgvector operator \<open><=>\<close> (cosine distance) is not part of the repository; it is the
  parameter \<open>cdist\<close>. On a NULL embedding the operator yields NULL, and a NULL condition
  in \<open>WHERE\<close> drops the row.
\<close>

definition similarity :: "(vector \<Rightarrow> vector \<Rightarrow> pg_float) \<Rightarrow> vector \<Rightarrow> knowledge_document \<Rightarrow> pg_float option" where
  "similarity cdist query_embedding kd =
     (case doc_embedding kd of
        None \<Rightarrow> None
      | Some e \<Rightarrow> Some (pg_one_minus (cdist e query_embedding)))"

definition match_where :: "(vector \<Rightarrow> vector \<Rightarrow> pg_float) \<Rightarrow> vector \<Rightarrow> uuid list \<Rightarrow> real \<Rightarrow> knowledge_document \<Rightarrow> bool" where
  "match_where cdist query_embedding knowledge_base_ids match_threshold kd =
     (doc_knowledge_base_id kd \<in> set knowledge_base_ids \<and>
      (case similarity cdist query_embedding kd of
         None \<Rightarrow> False
       | Some s \<Rightarrow> pg_greater s match_threshold))"

text \<open>
  The key of \<open>ORDER BY kd.embedding <=> query_embedding\<close>. PostgreSQL leaves the order of
  rows with equal distance open; \<open>tie\<close> is the order it takes among them in this execution.
  A row with a NULL embedding would come last; no such row passes the filter.
\<close>

definition order_key ::
  "(vector \<Rightarrow> vector \<Rightarrow> pg_float) \<Rightarrow> (knowledge_document \<Rightarrow> nat) \<Rightarrow> vector \<Rightarrow> knowledge_document
     \<Rightarrow> (bool \<times> real) \<times> nat" where
  "order_key cdist tie query_embedding kd =
     (case doc_embedding kd of
        None \<Rightarrow> ((True, 0), tie kd)
      | Some e \<Rightarrow> (pg_order (cdist e query_embedding), tie kd))"

definition match_select :: "(vector \<Rightarrow> vector \<Rightarrow> pg_float) \<Rightarrow> vector \<Rightarrow> knowledge_document \<Rightarrow> match_row" where
  "match_select cdist query_embedding kd =
     \<lparr> row_id = doc_id kd,
       row_knowledge_base_id = doc_knowledge_base_id kd,
       row_content = doc_content kd,
       row_metadata = doc_metadata kd,
       row_similarity = similarity cdist query_embedding kd \<rparr>"

text \<open>
  \<open>match_knowledge_documents\<close> of migration \<open>fix_match_documents_search_path.sql\<close>:
  \<open>SELECT ... FROM knowledge_documents kd WHERE kd.knowledge_base_id = ANY(ids) AND
  1 - (kd.embedding <=> q) > match_threshold ORDER BY kd.embedding <=> q LIMIT match_count\<close>.
  The function runs with the rights of the caller: \<open>table\<close> is the list of the rows that
  row-level security lets the caller read. PostgreSQL rejects a negative \<open>LIMIT\<close>.
\<close>

definition matching_documents ::
  "(vector \<Rightarrow> vector \<Rightarrow> pg_float) \<Rightarrow> (knowledge_document \<Rightarrow> nat) \<Rightarrow> knowledge_document list \<Rightarrow> vector
     \<Rightarrow> uuid list \<Rightarrow> real \<Rightarrow> knowledge_document list" where
  "matching_documents cdist tie table query_embedding knowledge_base_ids match_threshold =
     sort_key (order_key cdist tie query_embedding)
       (filter (match_where cdist query_embedding knowledge_base_ids match_threshold) table)"

definition match_knowledge_documents ::
  "(vector \<Rightarrow> vector \<Rightarrow> pg_float) \<Rightarrow> (knowledge_document \<Rightarrow> nat) \<Rightarrow> knowledge_document list \<Rightarrow> vector
     \<Rightarrow> uuid list \<Rightarrow> real \<Rightarrow> int \<Rightarrow> store_error + match_row list" where
  "match_knowledge_documents cdist tie table query_embedding knowledge_base_ids match_threshold match_count =
     (if match_count < 0 then Inl (StoreError ''LIMIT must not be negative'')
      else Inr (take (nat match_count)
             (map (match_select cdist query_embedding)
               (matching_documents cdist tie table query_embedding knowledge_base_ids match_threshold))))"

section \<open>The search endpoint \<open>POST /knowledge/search\<close>\<close>

text \<open>A key that occurs twice in an object takes its last value, as \<open>JSON.parse\<close> does.\<close>

definition json_get :: "string \<Rightarrow> (string \<times> json) list \<Rightarrow> json option" where
  "json_get k kvs = map_of (rev kvs) k"

datatype validation_error = ValidationError string

text \<open>\<open>z.string().min(1)\<close>: a string of length at least one; an absent key is an error.\<close>

fun z_string_min1 :: "string \<Rightarrow> json option \<Rightarrow> validation_error + string" where
  "z_string_min1 k (Some (JStr s)) = (if length s \<ge> 1 then Inr s else Inl (ValidationError k))"
| "z_string_min1 k _ = Inl (ValidationError k)"

fun z_string :: "json \<Rightarrow> string option" where
  "z_string (JStr s) = Some s"
| "z_string _ = None"

fun z_strings :: "json list \<Rightarrow> string list option" where
  "z_strings [] = Some []"
| "z_strings (j # js) =
     (case z_string j of
        None \<Rightarrow> None
      | Some s \<Rightarrow> (case z_strings js of None \<Rightarrow> None | Some ss \<Rightarrow> Some (s # ss)))"

text \<open>\<open>z.array(z.string()).min(1)\<close>.\<close>

fun z_string_array_min1 :: "string \<Rightarrow> json option \<Rightarrow> validation_error + string list" where
  "z_string_array_min1 k (Some (JArr js)) =
     (case z_strings js of
        None \<Rightarrow> Inl (ValidationError k)
      | Some ss \<Rightarrow> (if length ss \<ge> 1 then Inr ss else Inl (ValidationError k)))"
| "z_string_array_min1 k _ = Inl (ValidationError k)"

text \<open>\<open>z.number().optional().default(d)\<close>: an absent key takes the default \<open>d\<close>.\<close>

fun z_number_default :: "string \<Rightarrow> real \<Rightarrow> json option \<Rightarrow> validation_error + real" where
  "z_number_default k d None = Inr d"
| "z_number_default k d (Some (JNum x)) = Inr x"
| "z_number_default k d (Some _) = Inl (ValidationError k)"

record search_body =
  query :: string
  knowledgeBaseIds :: "string list"
  threshold :: real
  limit :: real

text \<open>
  \<open>searchKnowledgeSchema = z.object({query: z.string().min(1), knowledgeBaseIds:
  z.array(z.string()).min(1), threshold: z.number().optional().default(0.5), limit:
  z.number().optional().default(5)})\<close>.
\<close>

definition searchKnowledgeSchema :: "json \<Rightarrow> validation_error + search_body" where
  "searchKnowledgeSchema body =
     (case body of
        JObj kvs \<Rightarrow>
          (case z_string_min1 ''query'' (json_get ''query'' kvs) of
             Inl e \<Rightarrow> Inl e
           | Inr q \<Rightarrow>
          (case z_string_array_min1 ''knowledgeBaseIds'' (json_get ''knowledgeBaseIds'' kvs) of
             Inl e \<Rightarrow> Inl e
           | Inr ids \<Rightarrow>
          (case z_number_default ''threshold'' (5 / 10) (json_get ''threshold'' kvs) of
             Inl e \<Rightarrow> Inl e
           | Inr t \<Rightarrow>
          (case z_number_default ''limit'' 5 (json_get ''limit'' kvs) of
             Inl e \<Rightarrow> Inl e
           | Inr l \<Rightarrow>
               Inr \<lparr> query = q, knowledgeBaseIds = ids, threshold = t, limit = l \<rparr>))))
      | _ \<Rightarrow> Inl (ValidationError ''body''))"

text \<open>The arguments of the remote procedure call, as the handler builds them.\<close>

record rpc_args =
  query_embedding :: vector
  match_threshold :: real
  match_count :: real
  knowledge_base_ids :: "string list"

record search_document =
  sd_id :: uuid
  sd_content :: string
  sd_similarity :: "pg_float option"
  sd_metadata :: "(string \<times> json) list"

datatype search_response =
    Response400 validation_error
  | Response200 "search_document list"
  | Response500 string

definition to_search_document :: "match_row \<Rightarrow> search_document" where
  "to_search_document doc =
     \<lparr> sd_id = row_id doc, sd_content = row_content doc,
       sd_similarity = row_similarity doc, sd_metadata = row_metadata doc \<rparr>"

text \<open>
  The handler of \<open>POST /knowledge/search\<close>. The embedding provider (\<open>embedQuery\<close>) and the
  remote procedure call (\<open>rpc\<close>) are the two external calls; either may fail, and every
  failure inside the \<open>try\<close> block becomes the response 500 "Vector search failed".
\<close>

definition search_handler ::
  "(string \<Rightarrow> string + vector) \<Rightarrow> (rpc_args \<Rightarrow> store_error + match_row list) \<Rightarrow> json \<Rightarrow> search_response" where
  "search_handler embedQuery rpc raw =
     (case searchKnowledgeSchema raw of
        Inl e \<Rightarrow> Response400 e
      | Inr body \<Rightarrow>
          (case embedQuery (query body) of
             Inl e \<Rightarrow> Response500 ''Vector search failed''
           | Inr queryEmbedding \<Rightarrow>
               (case rpc \<lparr> query_embedding = queryEmbedding,
                           match_threshold = threshold body,
                           match_count = limit body,
                           knowledge_base_ids = knowledgeBaseIds body \<rparr> of
                  Inl e \<Rightarrow> Response500 ''Vector search failed''
                | Inr documents \<Rightarrow> Response200 (map to_search_document documents))))"

section \<open>The Tool Registry: the knowledge-base tool\<close>

definition lower_char :: "char \<Rightarrow> char" where
  "lower_char c =
     (if of_char c \<ge> (65::nat) \<and> of_char c \<le> (90::nat) then char_of (of_char c + (32::nat)) else c)"

text \<open>
  The filter \<open>.ilike("content", `%${query}%`)\<close> reaches the database through PostgREST, which
  reads \<open>*\<close> in the value of a \<open>like\<close> or \<open>ilike\<close> filter as \<open>%\<close>.
\<close>

definition postgrest_pattern :: "string \<Rightarrow> string" where
  "postgrest_pattern v = map (\<lambda>c. if c = CHR ''*'' then CHR ''%'' else c) v"

text \<open>
  A model of the SQL operator \<open>ILIKE\<close>, which the database provides. A string is the list
  of its characters. In the pattern \<open>%\<close> matches any sequence of characters, \<open>_\<close> any single
  character, a backslash makes the character after it stand for itself, and every
  character that stands for itself matches without regard to case: two characters match
  when the folding \<open>lc\<close> of the locale of the database, a parameter, maps them to the same
  character. A pattern that ends in a lone backslash matches nothing here (PostgreSQL
  reports an error); the patterns of the tool end in \<open>%\<close>.
\<close>

fun ilike :: "(char \<Rightarrow> char) \<Rightarrow> string \<Rightarrow> string \<Rightarrow> bool" where
  "ilike lc [] s = (s = [])"
| "ilike lc (p # ps) [] = (p = CHR ''%'' \<and> ilike lc ps [])"
| "ilike lc (p # ps) (c # cs) =
     (if p = CHR 0x5C
      then (case ps of
              [] \<Rightarrow> False
            | e # rest \<Rightarrow> lc e = lc c \<and> ilike lc rest cs)
      else if p = CHR ''%'' then ilike lc ps (c # cs) \<or> ilike lc (p # ps) cs
      else if p = CHR ''_'' then ilike lc ps cs
      else lc p = lc c \<and> ilike lc ps cs)"

text \<open>A character that stands for itself in a pattern, also after PostgREST has read it.\<close>

definition plain_char :: "char \<Rightarrow> bool" where
  "plain_char c = (c \<noteq> CHR ''%'' \<and> c \<noteq> CHR ''_'' \<and> c \<noteq> CHR ''*'' \<and> c \<noteq> CHR 0x5C)"

text \<open>
  The request built by \<open>createRAGTool\<close>:
  \<open>from("knowledge_documents").select("content").in("knowledge_base_id", kbIds)
  .ilike("content", `%${query}%`).limit(5)\<close>. \<open>table\<close> is the list of the rows that
  row-level security lets the caller read. No \<open>ORDER BY\<close> is given; the rows come in the
  order of \<open>table\<close>.
\<close>

definition rag_select ::
  "(char \<Rightarrow> char) \<Rightarrow> knowledge_document list \<Rightarrow> uuid list \<Rightarrow> string \<Rightarrow> string list" where
  "rag_select lc table kbIds q =
     take 5 (map doc_content
       (filter (\<lambda>d. doc_knowledge_base_id d \<in> set kbIds
                  \<and> ilike lc (postgrest_pattern (''%'' @ q @ ''%'')) (doc_content d)) table))"

text \<open>\<open>xs.join(sep)\<close>.\<close>

definition join :: "string \<Rightarrow> string list \<Rightarrow> string" where
  "join sep xs = (case xs of [] \<Rightarrow> [] | y # ys \<Rightarrow> y @ concat (map (\<lambda>z. sep @ z) ys))"

text \<open>The string \<open>"\n\n"\<close>.\<close>

definition newline2 :: string where
  "newline2 = [CHR 0x0A, CHR 0x0A]"

text \<open>
  \<open>createRAGTool\<close>: the tool \<open>search_knowledge_base\<close> made for the ids \<open>kbIds\<close>, called
  with a query; the value is the text the tool function returns. \<open>store_failure\<close> is the
  message of the error of the select request, when the store fails, and \<open>lc\<close> the folding of
  case of the database.
\<close>

definition createRAGTool ::
  "(char \<Rightarrow> char) \<Rightarrow> string option \<Rightarrow> knowledge_document list \<Rightarrow> uuid list \<Rightarrow> string \<Rightarrow> string" where
  "createRAGTool lc store_failure table kbIds q =
     (if length kbIds = 0 then ''No linked knowledge bases.''
      else (case store_failure of
              Some message \<Rightarrow> ''Error searching knowledge base: '' @ message
            | None \<Rightarrow>
                (let data = rag_select lc table kbIds q in
                 if length data = 0 then ''No relevant information found.''
                 else join newline2 data)))"


section \<open>The Plugin Sandbox\<close>

text \<open>
  What the plugin code does inside the worker, seen from the worker's message handler:
  its function returns a value that can be posted, returns a value whose posting throws
  (the message of that exception is kept), throws a value, never settles, or lets an
  exception escape outside the awaited call (from a timer callback or a promise nobody
  awaits), which the worker reports as an error event with a message. A thrown value is
  read twice by the handler: \<open>err?.message\<close> and \<open>String(err)\<close>.
\<close>

record js_thrown =
  thrown_message :: "string option"
  thrown_string :: string

datatype 'r plugin_behaviour =
    PluginReturns 'r
  | PluginReturnsUnpostable string
  | PluginThrows js_thrown
  | PluginNeverSettles
  | PluginUncaught string

datatype 'r worker_data = WorkerOk 'r | WorkerFail string

text \<open>What reaches the host from the worker: a message, an error event, or nothing.\<close>

datatype 'r worker_event = OnMessage "'r worker_data" | OnError string | NoEvent

text \<open>\<open>err?.message || String(err)\<close>: an absent or empty message falls back to the string form.\<close>

definition error_text :: "js_thrown \<Rightarrow> string" where
  "error_text err =
     (case thrown_message err of
        None \<Rightarrow> thrown_string err
      | Some m \<Rightarrow> (if m = [] then thrown_string err else m))"

text \<open>The worker script: the message it posts back, or the error event of the worker.\<close>

fun worker_script :: "'r plugin_behaviour \<Rightarrow> 'r worker_event" where
  "worker_script (PluginReturns result) = OnMessage (WorkerOk result)"
| "worker_script (PluginReturnsUnpostable m) =
     OnMessage (WorkerFail (error_text \<lparr> thrown_message = Some m, thrown_string = m \<rparr>))"
| "worker_script (PluginThrows err) = OnMessage (WorkerFail (error_text err))"
| "worker_script PluginNeverSettles = NoEvent"
| "worker_script (PluginUncaught m) = OnError m"

text \<open>
  One execution, seen from the host: what the plugin does, and the time in milliseconds
  after which the worker's event reaches the host.
\<close>

record 'r sandbox_execution =
  behaviour :: "'r plugin_behaviour"
  elapsed_ms :: nat

text \<open>
  The promise of \<open>runPluginInSandbox\<close>: \<open>Inl m\<close> is a rejection with an error of message
  \<open>m\<close>, \<open>Inr r\<close> the resolved value. \<open>terminated_at\<close> is the time of \<open>worker.terminate()\<close>.
  An event that reaches the host at 5000 ms or later finds the timer fired. The handler
  \<open>worker.onerror\<close> rejects the promise and does not call \<open>preventDefault\<close> on the event, so
  the runtime takes the error of the worker as unhandled and raises it in the host as
  well: \<open>host_error\<close> is the message of that error, raised outside the promise.
\<close>

record 'r sandbox_result =
  settled :: "string + 'r"
  terminated_at :: nat
  host_error :: "string option"

definition timeout_ms :: nat where
  "timeout_ms = 5000"

definition runPluginInSandbox :: "'r sandbox_execution \<Rightarrow> 'r sandbox_result" where
  "runPluginInSandbox ex =
     (case worker_script (behaviour ex) of
        NoEvent \<Rightarrow>
          \<lparr> settled = Inl ''Plugin execution timed out'', terminated_at = timeout_ms,
            host_error = None \<rparr>
      | OnMessage msg \<Rightarrow>
          (if elapsed_ms ex < timeout_ms
           then (case msg of
                   WorkerOk result \<Rightarrow>
                     \<lparr> settled = Inr result, terminated_at = elapsed_ms ex, host_error = None \<rparr>
                 | WorkerFail e \<Rightarrow>
                     \<lparr> settled = Inl (if e = [] then ''Plugin execution failed'' else e),
                       terminated_at = elapsed_ms ex, host_error = None \<rparr>)
           else \<lparr> settled = Inl ''Plugin execution timed out'', terminated_at = timeout_ms,
                  host_error = None \<rparr>)
      | OnError m \<Rightarrow>
          (if elapsed_ms ex < timeout_ms
           then \<lparr> settled = Inl m, terminated_at = elapsed_ms ex, host_error = Some m \<rparr>
           else \<lparr> settled = Inl ''Plugin execution timed out'', terminated_at = timeout_ms,
                  host_error = None \<rparr>))"

record plugin =
  plugin_name :: string
  plugin_description :: string
  plugin_code :: string

text \<open>
  \<open>createPluginTool\<close>: the tool made for a plugin, called in one execution. The function
  it wraps is \<open>try { return await runPluginInSandbox(..) }
  catch (e) { return `Error executing plugin ${plugin.name}: ${e.message}` }\<close>. \<open>returned\<close>
  is \<open>Inl\<close> for an exception that leaves the tool function and \<open>Inr\<close> for its return value;
  \<open>raised_in_host\<close> is the error that the runtime raises in the host outside the tool
  function, if any.
\<close>

datatype 'r tool_output = PluginValue 'r | ToolText string

record 'r tool_call =
  returned :: "string + 'r tool_output"
  raised_in_host :: "string option"

definition createPluginTool :: "plugin \<Rightarrow> 'r sandbox_execution \<Rightarrow> 'r tool_call" where
  "createPluginTool p ex =
     (let run = runPluginInSandbox ex in
      \<lparr> returned =
          (case settled run of
             Inr result \<Rightarrow> Inr (PluginValue result)
           | Inl m \<Rightarrow> Inr (ToolText (''Error executing plugin '' @ plugin_name p @ '': '' @ m))),
        raised_in_host = host_error run \<rparr>)"

section \<open>The Conversation Orchestrator\<close>

datatype tool = RAGTool "uuid list" | PluginTool plugin

fun tool_name :: "tool \<Rightarrow> string" where
  "tool_name (RAGTool kbIds) = ''search_knowledge_base''"
| "tool_name (PluginTool p) = plugin_name p"

text \<open>The tool list of \<open>streamMessage\<close>.\<close>

definition build_tools :: "uuid list \<Rightarrow> plugin list \<Rightarrow> tool list" where
  "build_tools kbIds plugins =
     (if length kbIds > 0 then [RAGTool kbIds] else []) @ map PluginTool plugins"

datatype content_part = TextPart string | ImageUrlPart string

datatype message_sender = SenderUser uuid | SenderCharacter uuid

record message =
  msg_chat_id :: uuid
  msg_sender :: message_sender
  msg_content :: "content_part list"

record character =
  character_id :: uuid
  character_name :: string

text \<open>The \<open>content\<close> of a streamed chunk: a string, or something else (a list of parts).\<close>

datatype chunk_content = StringContent string | OtherContent

text \<open>
  The outcomes of the external calls of one \<open>streamMessage\<close>, in the order of the calls:
  the insert of the user's message, the look-up of the chat's character, the gathering
  of knowledge-base ids and plugins (\<open>getSubscribedKnowledgeBaseIds\<close> throws on a store
  error), the chunks the agent streams and the error it may throw after them, the insert
  of the character's message, and the update of the preview. The client is that of the
  caller, so the store refuses what row-level security forbids: by the policy
  \<open>messages_insert_by_member\<close> the insert of a character's message is accepted only when
  the caller is the author of the character. \<open>preview_of\<close> stands for
  \<open>fullResponse.substring(0, 50).replace(/\s+/g, " ")\<close>.
\<close>

record stream_env =
  save_user_error :: "string option"
  chat_character :: "character option"
  gather_error :: "string option"
  kb_ids :: "uuid list"
  subscribed_plugins :: "plugin list"
  agent_chunks :: "chunk_content list"
  agent_error :: "string option"
  save_ai_error :: "string option"
  update_error :: "string option"
  preview_of :: "string \<Rightarrow> string"

datatype effect =
    InsertMessage message
  | ModelCall "tool list"
  | Yield string
  | UpdateLastMessage uuid string

datatype outcome = Returned | Threw string

record stream_result =
  effects :: "effect list"
  finished :: outcome

text \<open>\<open>if (chunk.content && typeof chunk.content === "string")\<close>: the non-empty strings.\<close>

fun chunk_texts :: "chunk_content list \<Rightarrow> string list" where
  "chunk_texts [] = []"
| "chunk_texts (StringContent s # cs) = (if s = [] then chunk_texts cs else s # chunk_texts cs)"
| "chunk_texts (OtherContent # cs) = chunk_texts cs"

definition user_message :: "uuid \<Rightarrow> uuid \<Rightarrow> content_part list \<Rightarrow> message" where
  "user_message chatId profileId msg =
     \<lparr> msg_chat_id = chatId, msg_sender = SenderUser profileId, msg_content = msg \<rparr>"

definition ai_message :: "uuid \<Rightarrow> uuid \<Rightarrow> string \<Rightarrow> message" where
  "ai_message chatId characterId text =
     \<lparr> msg_chat_id = chatId, msg_sender = SenderCharacter characterId,
       msg_content = [TextPart text] \<rparr>"

definition full_response :: "stream_env \<Rightarrow> string" where
  "full_response env = concat (chunk_texts (agent_chunks env))"

definition error_marker :: "string \<Rightarrow> string" where
  "error_marker m = [CHR 0x0A] @ ''[Error: '' @ m @ '']''"

text \<open>
  \<open>streamMessage\<close>, for a consumer that reads the generator to its end: the effects in the
  order they happen, and whether the generator returns or throws.
\<close>

definition streamMessage :: "stream_env \<Rightarrow> uuid \<Rightarrow> uuid \<Rightarrow> content_part list \<Rightarrow> stream_result" where
  "streamMessage env chatId profileId msg =
     (case save_user_error env of
        Some e \<Rightarrow> \<lparr> effects = [], finished = Threw e \<rparr>
      | None \<Rightarrow>
          (let saved = [InsertMessage (user_message chatId profileId msg)] in
           case chat_character env of
             None \<Rightarrow> \<lparr> effects = saved @ [Yield ''No AI in this chat.''], finished = Returned \<rparr>
           | Some ai \<Rightarrow>
               (case gather_error env of
                  Some e \<Rightarrow> \<lparr> effects = saved, finished = Threw e \<rparr>
                | None \<Rightarrow>
                    (let tools = build_tools (kb_ids env) (subscribed_plugins env);
                         fullResponse = full_response env;
                         streamed = [ModelCall tools]
                           @ map Yield (chunk_texts (agent_chunks env))
                           @ (case agent_error env of
                                None \<Rightarrow> []
                              | Some m \<Rightarrow> [Yield (error_marker m)])
                     in if fullResponse \<noteq> []
                        then (case save_ai_error env of
                                Some e \<Rightarrow> \<lparr> effects = saved @ streamed, finished = Threw e \<rparr>
                              | None \<Rightarrow>
                                  \<lparr> effects = saved @ streamed
                                      @ [InsertMessage (ai_message chatId (character_id ai) fullResponse)]
                                      @ (case update_error env of
                                           None \<Rightarrow> [UpdateLastMessage chatId (preview_of env fullResponse)]
                                         | Some e \<Rightarrow> []),
                                    finished = Returned \<rparr>)
                        else \<lparr> effects = saved @ streamed, finished = Returned \<rparr>))))"

text \<open>The table \<open>messages\<close> after the effects: rows are only ever appended.\<close>

fun inserted :: "effect list \<Rightarrow> message list" where
  "inserted [] = []"
| "inserted (InsertMessage m # es) = m # inserted es"
| "inserted (e # es) = inserted es"

definition messages_after :: "message list \<Rightarrow> stream_result \<Rightarrow> message list" where
  "messages_after table r = table @ inserted (effects r)"

fun is_model_call :: "effect \<Rightarrow> bool" where
  "is_model_call (ModelCall tools) = True"
| "is_model_call e = False"

fun is_character_message :: "message \<Rightarrow> bool" where
  "is_character_message m = (case msg_sender m of SenderCharacter c \<Rightarrow> True | SenderUser u \<Rightarrow> False)"


section \<open>The Document Parser\<close>

definition to_lower :: "string \<Rightarrow> string" where
  "to_lower s = map lower_char s"

definition ends_with :: "string \<Rightarrow> string \<Rightarrow> bool" where
  "ends_with s suffix_str =
     (length suffix_str \<le> length s \<and> drop (length s - length suffix_str) s = suffix_str)"

definition starts_with :: "string \<Rightarrow> string \<Rightarrow> bool" where
  "starts_with s prefix_str = (take (length prefix_str) s = prefix_str)"

text \<open>
  The extractor a file is handed to. The loaders themselves are library code; the
  repository decides which one runs. The three rejections carry a message each: the one
  for \<open>.doc\<close> asks to convert the file to \<open>.docx\<close> or \<open>.pdf\<close> and to upload it again, the
  ones for \<open>.pptx\<close> and \<open>.ppt\<close> say that the format is not supported.
\<close>

datatype extractor =
    WebPDFLoader
  | DocxLoader
  | CSVLoader
  | JSONLoader
  | HtmlStripper
  | TextLoader

datatype unsupported_format = UnsupportedPptx | UnsupportedDoc | UnsupportedPpt

text \<open>\<open>parseFileContent\<close> of the knowledge function (\<open>functions/knowledge/index.ts\<close>).\<close>

definition parseFileContent :: "string \<Rightarrow> string \<Rightarrow> unsupported_format + extractor" where
  "parseFileContent fileType fileName =
     (let mimeType = to_lower fileType in
      if mimeType = ''application/pdf'' \<or> ends_with fileName ''.pdf'' then Inr WebPDFLoader
      else if mimeType = ''application/vnd.openxmlformats-officedocument.wordprocessingml.document''
              \<or> ends_with fileName ''.docx'' then Inr DocxLoader
      else if mimeType = ''application/vnd.openxmlformats-officedocument.presentationml.presentation''
              \<or> ends_with fileName ''.pptx'' then Inl UnsupportedPptx
      else if mimeType = ''text/csv'' \<or> ends_with fileName ''.csv'' then Inr CSVLoader
      else if mimeType = ''application/json'' \<or> ends_with fileName ''.json'' then Inr JSONLoader
      else if mimeType = ''application/msword'' \<or> ends_with fileName ''.doc'' then Inl UnsupportedDoc
      else if mimeType = ''application/vnd.ms-powerpoint'' \<or> ends_with fileName ''.ppt''
           then Inl UnsupportedPpt
      else if mimeType = ''text/html'' \<or> ends_with fileName ''.html'' then Inr HtmlStripper
      else Inr TextLoader)"

text \<open>\<open>parseFileContent\<close> of the embedding worker, which polls the queue of pending files.\<close>

definition worker_parseFileContent :: "string \<Rightarrow> string \<Rightarrow> unsupported_format + extractor" where
  "worker_parseFileContent fileType fileName =
     (let mimeType = to_lower fileType in
      if mimeType = ''application/pdf'' \<or> ends_with fileName ''.pdf'' then Inr WebPDFLoader
      else if mimeType = ''application/vnd.openxmlformats-officedocument.wordprocessingml.document''
              \<or> ends_with fileName ''.docx'' then Inr DocxLoader
      else if mimeType = ''text/csv'' \<or> ends_with fileName ''.csv'' then Inr CSVLoader
      else if mimeType = ''application/json'' \<or> ends_with fileName ''.json'' then Inr JSONLoader
      else if mimeType = ''text/html'' \<or> ends_with fileName ''.html'' then Inr HtmlStripper
      else Inr TextLoader)"

text \<open>
  The files the claim of the specification is about: the MIME type or the extension is
  that of a legacy \<open>.doc\<close>, \<open>.ppt\<close> or \<open>.pptx\<close> document.
\<close>

definition legacy_office :: "string \<Rightarrow> string \<Rightarrow> bool" where
  "legacy_office fileType fileName =
     (to_lower fileType \<in> {''application/msword'', ''application/vnd.ms-powerpoint'',
        ''application/vnd.openxmlformats-officedocument.presentationml.presentation''}
      \<or> ends_with fileName ''.doc'' \<or> ends_with fileName ''.ppt'' \<or> ends_with fileName ''.pptx'')"

section \<open>The Ingestion Worker\<close>

datatype file_status = Pending | Processing | Completed | Failed

text \<open>
  Rows of the table \<open>knowledge_files\<close>, with the columns that the migrations create
  (\<open>file_size\<close> and \<open>updated_at\<close> are left out). \<open>created_at\<close> is a time stamp. The table has
  no column \<open>chunk_count\<close>.
\<close>

record knowledge_file =
  kf_id :: uuid
  kf_knowledge_base_id :: uuid
  kf_file_path :: string
  kf_file_name :: string
  kf_file_type :: "string option"
  kf_status :: file_status
  kf_error_message :: "string option"
  kf_created_at :: nat

record knowledge_store =
  store_files :: "knowledge_file list"
  store_documents :: "knowledge_document list"

text \<open>
  The columns that the code names in its updates of \<open>knowledge_files\<close>. An update that
  names a column the table does not have is rejected as a whole by the store; the code
  does not look at the outcome of its updates.
\<close>

datatype file_column = SetStatus file_status | SetErrorMessage string | SetChunkCount nat

fun column_exists :: "file_column \<Rightarrow> bool" where
  "column_exists (SetStatus s) = True"
| "column_exists (SetErrorMessage e) = True"
| "column_exists (SetChunkCount n) = False"

fun set_column :: "file_column \<Rightarrow> knowledge_file \<Rightarrow> knowledge_file" where
  "set_column (SetStatus s) f = f \<lparr> kf_status := s \<rparr>"
| "set_column (SetErrorMessage e) f = f \<lparr> kf_error_message := Some e \<rparr>"
| "set_column (SetChunkCount n) f = f"

text \<open>\<open>.update(columns).eq("id", id)\<close>: every row with that id is updated, whatever its status.\<close>

definition update_file :: "uuid \<Rightarrow> file_column list \<Rightarrow> knowledge_file list \<Rightarrow> knowledge_file list" where
  "update_file fid columns files =
     (if list_all column_exists columns
      then map (\<lambda>f. if kf_id f = fid then fold set_column columns f else f) files
      else files)"

text \<open>
  \<open>.select("*").eq("status", "pending").order("created_at", {ascending: true}).limit(1)
  .single()\<close>: the oldest pending file, or nothing when the queue is empty.
\<close>

definition select_pending :: "knowledge_file list \<Rightarrow> knowledge_file option" where
  "select_pending files =
     (case sort_key kf_created_at (filter (\<lambda>f. kf_status f = Pending) files) of
        [] \<Rightarrow> None
      | f # rest \<Rightarrow> Some f)"

record blob =
  blob_type :: string
  blob_text :: string

text \<open>
  The outcomes of the external calls of one ingestion: the download from storage, the
  library loaders, the text splitter (\<open>RecursiveCharacterTextSplitter\<close> with chunk size
  1000 and overlap 200, which gives each chunk its text and its place \<open>loc\<close> in the
  document), the embedding provider, the batch insert, and the identifiers the database
  gives to new rows.
\<close>

record ingest_env =
  env_download :: "string + blob"
  env_loader :: "extractor \<Rightarrow> blob \<Rightarrow> string + string list"
  env_splitter :: "string \<Rightarrow> (string \<times> json) list"
  env_embed :: "string list \<Rightarrow> string + vector list"
  env_insert_error :: "string option"
  env_new_id :: "nat \<Rightarrow> uuid"

definition chunk_rows ::
  "ingest_env \<Rightarrow> uuid \<Rightarrow> uuid \<Rightarrow> (string \<times> json) list \<Rightarrow> (string \<times> json) list \<Rightarrow> vector list \<Rightarrow> knowledge_document list" where
  "chunk_rows env kbId fileId metadata splitDocs vectors =
     map (\<lambda>index.
        \<lparr> doc_id = env_new_id env index,
          doc_knowledge_base_id = kbId,
          doc_file_id = Some fileId,
          doc_content = fst (splitDocs ! index),
          doc_metadata = metadata @ [(''loc'', snd (splitDocs ! index)),
                                     (''chunkIndex'', JNum (real index)),
                                     (''totalChunks'', JNum (real (length splitDocs)))],
          doc_embedding = (if index < length vectors then Some (vectors ! index) else None) \<rparr>)
       [0 ..< length splitDocs]"

text \<open>
  The body of the \<open>try\<close> block after parsing, the same in the worker and in the knowledge
  function: join the pages, split, embed, insert. \<open>Inl\<close> is the text of the error thrown,
  \<open>Inr\<close> the rows inserted.
\<close>

definition embed_and_insert ::
  "ingest_env \<Rightarrow> uuid \<Rightarrow> uuid \<Rightarrow> (string \<times> json) list \<Rightarrow> string list \<Rightarrow> string + knowledge_document list" where
  "embed_and_insert env kbId fileId metadata pages =
     (let totalContent = join newline2 pages in
      if length totalContent = 0 then Inl ''Error: No content to process after parsing''
      else
        (let splitDocs = env_splitter env totalContent in
         if length splitDocs = 0 then Inl ''Error: No content to process after splitting''
         else
           (case env_embed env (map fst splitDocs) of
              Inl e \<Rightarrow> Inl e
            | Inr vectors \<Rightarrow>
                (case env_insert_error env of
                   Some e \<Rightarrow> Inl e
                 | None \<Rightarrow> Inr (chunk_rows env kbId fileId metadata splitDocs vectors)))))"

text \<open>\<open>.update({ status: "failed", error_message: String(e) })\<close>.\<close>

definition mark_failed :: "string \<Rightarrow> file_column list" where
  "mark_failed e = [SetStatus Failed, SetErrorMessage e]"

text \<open>The pages the worker parses out of a downloaded file.\<close>

definition worker_parse :: "ingest_env \<Rightarrow> knowledge_file \<Rightarrow> blob \<Rightarrow> string + string list" where
  "worker_parse env fileRecord downloaded =
     (if (case kf_file_type fileRecord of None \<Rightarrow> False | Some t \<Rightarrow> starts_with t ''text/'')
      then Inr [blob_text downloaded]
      else
        (let fileType = (if blob_type downloaded = [] then ''text/plain'' else blob_type downloaded) in
         case worker_parseFileContent fileType (kf_file_name fileRecord) of
           Inl u \<Rightarrow> Inl ''Error: unsupported format''
         | Inr loader \<Rightarrow> env_loader env loader downloaded))"

text \<open>
  \<open>processOne\<close> of the embedding worker, run without interruption: select the oldest
  pending file, mark it \<open>processing\<close>, download, parse, split, embed, insert, and mark the
  file \<open>completed\<close> or \<open>failed\<close>. The worker's client holds the service role, which
  row-level security does not restrict.
\<close>

definition processOne :: "ingest_env \<Rightarrow> knowledge_store \<Rightarrow> knowledge_store" where
  "processOne env store =
     (case select_pending (store_files store) of
        None \<Rightarrow> store
      | Some fileRecord \<Rightarrow>
          (let fid = kf_id fileRecord;
               claimed = update_file fid [SetStatus Processing] (store_files store)
           in case env_download env of
                Inl e \<Rightarrow> store \<lparr> store_files := update_file fid (mark_failed e) claimed \<rparr>
              | Inr downloaded \<Rightarrow>
                  (case (case worker_parse env fileRecord downloaded of
                           Inl e \<Rightarrow> Inl e
                         | Inr pages \<Rightarrow>
                             embed_and_insert env (kf_knowledge_base_id fileRecord) fid
                               [(''fileName'', JStr (kf_file_name fileRecord)),
                                (''source'', JStr (kf_file_path fileRecord)),
                                (''pageCount'', JNum (real (length pages)))] pages) of
                     Inl e \<Rightarrow> store \<lparr> store_files := update_file fid (mark_failed e) claimed \<rparr>
                   | Inr rows \<Rightarrow>
                       store \<lparr> store_files := update_file fid [SetStatus Completed] claimed,
                         store_documents := store_documents store @ rows \<rparr>)))"

text \<open>
  \<open>processDocumentTask\<close> of the older copy of the knowledge function, for an upload whose
  row \<open>fileRecord\<close> was inserted with status \<open>processing\<close>. The content is a string (JSON
  mode) or a file. A failure of the parser is thrown again as a new error whose message
  starts with a fixed prefix (in the source a Chinese phrase, "file parsing failed").
  The update after a successful insert names the columns \<open>status\<close> and \<open>chunk_count\<close>.
\<close>

definition parse_failed :: "string \<Rightarrow> string" where
  "parse_failed e = ''Error: file parsing failed: '' @ e"

definition task_parse :: "ingest_env \<Rightarrow> knowledge_file \<Rightarrow> string + blob \<Rightarrow> string + string list" where
  "task_parse env fileRecord content =
     (case content of
        Inl text \<Rightarrow> Inr [text]
      | Inr file \<Rightarrow>
          (let fileType = (if blob_type file = [] then ''text/plain'' else blob_type file) in
           case parseFileContent fileType (kf_file_name fileRecord) of
             Inl u \<Rightarrow> Inl (parse_failed ''Error: unsupported format'')
           | Inr loader \<Rightarrow>
               (case env_loader env loader file of
                  Inl e \<Rightarrow> Inl (parse_failed e)
                | Inr pages \<Rightarrow> Inr pages)))"

definition processDocumentTask ::
  "ingest_env \<Rightarrow> knowledge_file \<Rightarrow> string + blob \<Rightarrow> knowledge_store \<Rightarrow> knowledge_store" where
  "processDocumentTask env fileRecord content store =
     (let fid = kf_id fileRecord
      in case (case task_parse env fileRecord content of
                 Inl e \<Rightarrow> Inl e
               | Inr pages \<Rightarrow>
                   embed_and_insert env (kf_knowledge_base_id fileRecord) fid
                     [(''fileName'', JStr (kf_file_name fileRecord)),
                      (''source'', JStr (kf_file_path fileRecord)),
                      (''pageCount'', JNum (real (length pages)))] pages) of
           Inl e \<Rightarrow> store \<lparr> store_files := update_file fid (mark_failed e) (store_files store) \<rparr>
         | Inr rows \<Rightarrow>
             store \<lparr> store_files :=
                 update_file fid [SetStatus Completed, SetChunkCount (length rows)] (store_files store),
               store_documents := store_documents store @ rows \<rparr>)"

text \<open>
  Several workers. Each request to the database is one step; between the select and the
  update of one worker, other workers may run. A worker is idle, has read a pending file,
  has marked a file \<open>processing\<close>, or has found the queue empty.
\<close>

datatype worker_state = Idle | Selected knowledge_file | Claimed uuid | QueueEmpty

fun worker_step :: "knowledge_file list \<Rightarrow> worker_state \<Rightarrow> knowledge_file list \<times> worker_state" where
  "worker_step files Idle =
     (case select_pending files of
        None \<Rightarrow> (files, QueueEmpty)
      | Some f \<Rightarrow> (files, Selected f))"
| "worker_step files (Selected f) =
     (update_file (kf_id f) [SetStatus Processing] files, Claimed (kf_id f))"
| "worker_step files (Claimed fid) = (files, Claimed fid)"
| "worker_step files QueueEmpty = (files, QueueEmpty)"

text \<open>A schedule names the worker that takes the next step.\<close>

fun run_schedule :: "nat list \<Rightarrow> knowledge_file list \<times> worker_state list \<Rightarrow> knowledge_file list \<times> worker_state list" where
  "run_schedule [] s = s"
| "run_schedule (w # ws) (files, workers) =
     (if w < length workers
      then (case worker_step files (workers ! w) of
              (files', st) \<Rightarrow> run_schedule ws (files', workers[w := st]))
      else run_schedule ws (files, workers))"

text \<open>The claim of one worker, its select and its update with nothing in between.\<close>

definition claim_file :: "knowledge_file list \<Rightarrow> knowledge_file list \<times> uuid option" where
  "claim_file files =
     (case select_pending files of
        None \<Rightarrow> (files, None)
      | Some f \<Rightarrow> (update_file (kf_id f) [SetStatus Processing] files, Some (kf_id f)))"

definition status_of :: "knowledge_file list \<Rightarrow> uuid \<Rightarrow> file_status option" where
  "status_of files fid = map_option kf_status (find (\<lambda>f. kf_id f = fid) files)"


section \<open>Private chats\<close>

record chat =
  chat_id :: uuid
  chat_owner_id :: uuid
  chat_name :: string
  chat_is_group :: bool
  chat_avatar :: "string option"

text \<open>
  A member of a chat is a user (by profile id) or a character, never both: the constraint
  \<open>chat_members_member_ck\<close> of the schema.
\<close>

datatype member = UserMember uuid | CharacterMember uuid

record chat_member =
  cm_chat_id :: uuid
  cm_member :: member
  cm_role :: string

text \<open>
  The tables \<open>chats\<close> and \<open>chat_members\<close>, and for every character the profile that is its
  author (the column \<open>author_id\<close> of \<open>characters\<close>).
\<close>

record chat_db =
  db_chats :: "chat list"
  db_members :: "chat_member list"
  db_author :: "uuid \<Rightarrow> uuid option"

record chat_view =
  cv_id :: uuid
  cv_isGroup :: bool
  cv_name :: string
  cv_title :: string
  cv_avatar :: "string option"
  cv_creatorId :: uuid

text \<open>\<open>.single()\<close>: the row when the request yields exactly one, no data otherwise.\<close>

fun single :: "'a list \<Rightarrow> 'a option" where
  "single [x] = Some x"
| "single xs = None"

text \<open>
  Row-level security. The service works with the client of the caller, whose profile is
  the \<open>profileId\<close> that the route passes on. By the policies
  \<open>chat_members_select_self_or_character_author\<close> and
  \<open>chat_members_insert_self_or_character_author\<close> the caller reads and inserts the member
  row of a user only for the own profile, and the member row of a character only for a
  character the caller is the author of. By \<open>chats_select_owner_or_member\<close> the caller reads
  a chat as its owner or when one of its member rows is such a row.
\<close>

definition member_allowed :: "chat_db \<Rightarrow> uuid \<Rightarrow> chat_member \<Rightarrow> bool" where
  "member_allowed db caller m =
     (case cm_member m of
        UserMember p \<Rightarrow> p = caller
      | CharacterMember c \<Rightarrow> db_author db c = Some caller)"

definition visible_members :: "chat_db \<Rightarrow> uuid \<Rightarrow> chat_member list" where
  "visible_members db caller = filter (member_allowed db caller) (db_members db)"

definition visible_chats :: "chat_db \<Rightarrow> uuid \<Rightarrow> chat list" where
  "visible_chats db caller =
     filter (\<lambda>c. chat_owner_id c = caller
                \<or> (\<exists>m \<in> set (db_members db). cm_chat_id m = chat_id c \<and> member_allowed db caller m))
       (db_chats db)"

text \<open>
  The outcomes of the external calls of one \<open>createPrivateChat\<close>: the id the database
  gives to the new chat, and the errors of the two inserts.
\<close>

record create_env =
  new_chat_id :: uuid
  chat_insert_error :: "string option"
  member_insert_error :: "string option"

record create_result =
  result_db :: chat_db
  result :: "string + (chat_view \<times> bool)"

definition view_of :: "chat \<Rightarrow> uuid \<Rightarrow> chat_view" where
  "view_of c userId =
     \<lparr> cv_id = chat_id c, cv_isGroup = chat_is_group c, cv_name = chat_name c,
       cv_title = chat_name c, cv_avatar = chat_avatar c, cv_creatorId = userId \<rparr>"

text \<open>The look-up at the head of \<open>createPrivateChat\<close>: the existing chat, if it finds one.\<close>

definition find_existing :: "chat_db \<Rightarrow> uuid \<Rightarrow> uuid \<Rightarrow> chat option" where
  "find_existing db profileId characterId =
     (let userChats = filter (\<lambda>m. cm_member m = UserMember profileId) (visible_members db profileId) in
      if length userChats > 0
      then
        (let chatIds = map cm_chat_id userChats in
         case single (filter (\<lambda>m. cm_chat_id m \<in> set chatIds
                                   \<and> cm_member m = CharacterMember characterId)
                        (visible_members db profileId)) of
           None \<Rightarrow> None
         | Some existingMember \<Rightarrow>
             single (filter (\<lambda>c. chat_id c = cm_chat_id existingMember \<and> chat_is_group c = False)
                       (visible_chats db profileId)))
      else None)"

text \<open>
  \<open>createPrivateChat\<close>. \<open>Inl\<close> is the error thrown; the second component of the value
  returned is \<open>isNew\<close>. The two member rows are inserted in one request, which the store
  refuses as a whole when row-level security forbids one of them.
\<close>

definition createPrivateChat ::
  "create_env \<Rightarrow> chat_db \<Rightarrow> uuid \<Rightarrow> uuid \<Rightarrow> uuid \<Rightarrow> string \<Rightarrow> string option \<Rightarrow> create_result" where
  "createPrivateChat env db profileId userId characterId name avatar =
     (case find_existing db profileId characterId of
        Some existingChat \<Rightarrow>
          \<lparr> result_db = db, result = Inr (view_of existingChat userId, False) \<rparr>
      | None \<Rightarrow>
          (case chat_insert_error env of
             Some chatError \<Rightarrow> \<lparr> result_db = db, result = Inl chatError \<rparr>
           | None \<Rightarrow>
               (let new_chat = \<lparr> chat_id = new_chat_id env, chat_owner_id = profileId,
                                 chat_name = name, chat_is_group = False, chat_avatar = avatar \<rparr>;
                    db1 = db \<lparr> db_chats := db_chats db @ [new_chat] \<rparr>;
                    rows = [\<lparr> cm_chat_id = chat_id new_chat, cm_member = UserMember profileId,
                              cm_role = ''owner'' \<rparr>,
                            \<lparr> cm_chat_id = chat_id new_chat, cm_member = CharacterMember characterId,
                              cm_role = ''member'' \<rparr>]
                in case (if list_all (member_allowed db profileId) rows
                         then member_insert_error env
                         else Some ''new row violates row-level security policy'') of
                     Some memberError \<Rightarrow> \<lparr> result_db = db1, result = Inl memberError \<rparr>
                   | None \<Rightarrow>
                       \<lparr> result_db = db1 \<lparr> db_members := db_members db1 @ rows \<rparr>,
                         result = Inr (view_of new_chat userId, True) \<rparr>)))"

text \<open>A private chat between a user and a character: both are members, and it is no group.\<close>

definition is_member :: "chat_db \<Rightarrow> uuid \<Rightarrow> member \<Rightarrow> bool" where
  "is_member db cid mem = (\<exists>m \<in> set (db_members db). cm_chat_id m = cid \<and> cm_member m = mem)"

definition private_chat_between :: "chat_db \<Rightarrow> uuid \<Rightarrow> uuid \<Rightarrow> chat \<Rightarrow> bool" where
  "private_chat_between db profileId characterId c =
     (c \<in> set (db_chats db) \<and> chat_is_group c = False
      \<and> is_member db (chat_id c) (UserMember profileId)
      \<and> is_member db (chat_id c) (CharacterMember characterId))"


section \<open>Example data\<close>

text \<open>
  A small store for the concrete instances below: chunks in two knowledge bases, with unit
  vectors as embeddings, for which the cosine distance is one minus the inner product.
  The cosine distance to or from a zero vector is NaN. The short ids of the examples stand
  for UUIDs.
\<close>

definition example_cdist :: "vector \<Rightarrow> vector \<Rightarrow> pg_float" where
  "example_cdist a b =
     (if list_all (\<lambda>x. x = 0) a \<or> list_all (\<lambda>x. x = 0) b then NaN
      else Num (1 - sum_list (map2 (*) a b)))"

definition example_tie :: "knowledge_document \<Rightarrow> nat" where
  "example_tie kd = 0"

definition example_d1 :: knowledge_document where
  "example_d1 =
     \<lparr> doc_id = ''d1'', doc_knowledge_base_id = ''kb1'', doc_file_id = None,
       doc_content = ''red apple'', doc_metadata = [], doc_embedding = Some [1, 0] \<rparr>"

definition example_d2 :: knowledge_document where
  "example_d2 =
     \<lparr> doc_id = ''d2'', doc_knowledge_base_id = ''kb1'', doc_file_id = None,
       doc_content = ''green pear'', doc_metadata = [], doc_embedding = Some [3 / 5, 4 / 5] \<rparr>"

definition example_d3 :: knowledge_document where
  "example_d3 =
     \<lparr> doc_id = ''d3'', doc_knowledge_base_id = ''kb2'', doc_file_id = None,
       doc_content = ''blue car'', doc_metadata = [], doc_embedding = Some [0, 1] \<rparr>"

definition example_zero :: knowledge_document where
  "example_zero =
     \<lparr> doc_id = ''d0'', doc_knowledge_base_id = ''kb1'', doc_file_id = None,
       doc_content = ''blank'', doc_metadata = [], doc_embedding = Some [0, 0] \<rparr>"

definition example_table :: "knowledge_document list" where
  "example_table = [example_d1, example_d2, example_d3]"

definition example_table_zero :: "knowledge_document list" where
  "example_table_zero = [example_zero, example_d2, example_d1]"

text \<open>Chunks whose contents hold the characters that a pattern reads in a special way.\<close>

definition example_patterns :: "knowledge_document list" where
  "example_patterns =
     [\<lparr> doc_id = ''e1'', doc_knowledge_base_id = ''kb1'', doc_file_id = None,
        doc_content = ''axb'', doc_metadata = [], doc_embedding = None \<rparr>,
      \<lparr> doc_id = ''e2'', doc_knowledge_base_id = ''kb1'', doc_file_id = None,
        doc_content = ''A_B'', doc_metadata = [], doc_embedding = None \<rparr>]"

definition example_embedQuery :: "string \<Rightarrow> string + vector" where
  "example_embedQuery q = Inr [1, 0]"

text \<open>
  The database running the search function on the arguments of the remote call, for
  arguments of the types that the function declares.
\<close>

definition example_rpc :: "rpc_args \<Rightarrow> store_error + match_row list" where
  "example_rpc args =
     match_knowledge_documents example_cdist example_tie example_table (query_embedding args)
       (knowledge_base_ids args) (match_threshold args) \<lfloor>match_count args\<rfloor>"


definition example_request_no_ids :: json where
  "example_request_no_ids = JObj [(''query'', JStr ''fruit''), (''knowledgeBaseIds'', JArr [])]"

definition example_request_threshold_one :: json where
  "example_request_threshold_one =
     JObj [(''query'', JStr ''fruit''), (''knowledgeBaseIds'', JArr [JStr ''kb1'']),
           (''threshold'', JNum 1)]"

definition example_plugin :: plugin where
  "example_plugin =
     \<lparr> plugin_name = ''weather'', plugin_description = ''forecast'', plugin_code = ''return 1'' \<rparr>"

definition example_hanging :: "nat sandbox_execution" where
  "example_hanging = \<lparr> behaviour = PluginNeverSettles, elapsed_ms = 0 \<rparr>"

definition example_throwing :: "nat sandbox_execution" where
  "example_throwing =
     \<lparr> behaviour = PluginThrows \<lparr> thrown_message = Some ''boom'', thrown_string = ''Error: boom'' \<rparr>,
       elapsed_ms = 12 \<rparr>"

definition example_throwing_text :: "nat sandbox_execution" where
  "example_throwing_text =
     \<lparr> behaviour = PluginThrows \<lparr> thrown_message = None, thrown_string = ''oops'' \<rparr>,
       elapsed_ms = 12 \<rparr>"

text \<open>
  A plugin whose code sets a timer, the callback of which throws, and returns a promise
  that never settles: \<open>setTimeout(() => { throw new Error("boom") }, 0);
  return new Promise(() => {})\<close>.
\<close>

definition example_uncaught :: "nat sandbox_execution" where
  "example_uncaught = \<lparr> behaviour = PluginUncaught ''Uncaught Error: boom'', elapsed_ms = 3 \<rparr>"

text \<open>A queue with one pending text file, and an ingestion in which every external call succeeds.\<close>

definition example_file :: knowledge_file where
  "example_file =
     \<lparr> kf_id = ''f1'', kf_knowledge_base_id = ''kb1'', kf_file_path = ''kb1/1_notes.txt'',
       kf_file_name = ''notes.txt'', kf_file_type = Some ''text/plain'', kf_status = Pending,
       kf_error_message = None, kf_created_at = 1 \<rparr>"

definition example_store :: knowledge_store where
  "example_store = \<lparr> store_files = [example_file], store_documents = [] \<rparr>"

definition example_processing_store :: knowledge_store where
  "example_processing_store =
     \<lparr> store_files = [example_file \<lparr> kf_status := Processing \<rparr>], store_documents = [] \<rparr>"

definition example_env :: ingest_env where
  "example_env =
     \<lparr> env_download = Inr \<lparr> blob_type = ''text/plain'', blob_text = ''alpha beta'' \<rparr>,
       env_loader = (\<lambda>loader file. Inr [blob_text file]),
       env_splitter = (\<lambda>text. [(text, JNull)]),
       env_embed = (\<lambda>texts. Inr (map (\<lambda>t. [1, 0]) texts)),
       env_insert_error = None,
       env_new_id = (\<lambda>index. replicate (Suc index) CHR ''d'') \<rparr>"

text \<open>
  A user and a character of which the user is the author, who share a group chat and a
  private chat, or a private chat only.
\<close>

definition example_group_chat :: chat where
  "example_group_chat =
     \<lparr> chat_id = ''g1'', chat_owner_id = ''p1'', chat_name = ''club'', chat_is_group = True,
       chat_avatar = None \<rparr>"

definition example_private_chat :: chat where
  "example_private_chat =
     \<lparr> chat_id = ''c1'', chat_owner_id = ''p1'', chat_name = ''Azusa'', chat_is_group = False,
       chat_avatar = None \<rparr>"

definition example_author :: "uuid \<Rightarrow> uuid option" where
  "example_author c = (if c = ''ch1'' then Some ''p1'' else None)"

definition example_private_db :: chat_db where
  "example_private_db =
     \<lparr> db_chats = [example_private_chat],
       db_members =
         [\<lparr> cm_chat_id = ''c1'', cm_member = UserMember ''p1'', cm_role = ''owner'' \<rparr>,
          \<lparr> cm_chat_id = ''c1'', cm_member = CharacterMember ''ch1'', cm_role = ''member'' \<rparr>],
       db_author = example_author \<rparr>"

definition example_group_db :: chat_db where
  "example_group_db =
     \<lparr> db_chats = [example_group_chat, example_private_chat],
       db_members =
         [\<lparr> cm_chat_id = ''g1'', cm_member = UserMember ''p1'', cm_role = ''owner'' \<rparr>,
          \<lparr> cm_chat_id = ''g1'', cm_member = CharacterMember ''ch1'', cm_role = ''member'' \<rparr>,
          \<lparr> cm_chat_id = ''c1'', cm_member = UserMember ''p1'', cm_role = ''owner'' \<rparr>,
          \<lparr> cm_chat_id = ''c1'', cm_member = CharacterMember ''ch1'', cm_role = ''member'' \<rparr>],
       db_author = example_author \<rparr>"

definition example_create_env :: create_env where
  "example_create_env =
     \<lparr> new_chat_id = ''c2'', chat_insert_error = None, member_insert_error = None \<rparr>"

text \<open>
  Generations: one that fails before any text, one that streams two increments, one whose
  user message the store refuses, and one that streams two increments while the store
  refuses the message of the character.
\<close>

definition example_failed_generation :: stream_env where
  "example_failed_generation =
     \<lparr> save_user_error = None,
       chat_character = Some \<lparr> character_id = ''ch1'', character_name = ''Azusa'' \<rparr>,
       gather_error = None, kb_ids = [], subscribed_plugins = [],
       agent_chunks = [OtherContent, StringContent ''''], agent_error = Some ''quota'',
       save_ai_error = None, update_error = None, preview_of = take 50 \<rparr>"

definition example_generation :: stream_env where
  "example_generation =
     \<lparr> save_user_error = None,
       chat_character = Some \<lparr> character_id = ''ch1'', character_name = ''Azusa'' \<rparr>,
       gather_error = None, kb_ids = [], subscribed_plugins = [],
       agent_chunks = [StringContent ''Hel'', OtherContent, StringContent ''lo''],
       agent_error = None, save_ai_error = None, update_error = None, preview_of = take 50 \<rparr>"

definition example_rejected_insert :: stream_env where
  "example_rejected_insert = example_generation \<lparr> save_user_error := Some ''store down'' \<rparr>"

definition example_refused_reply :: stream_env where
  "example_refused_reply =
     example_generation \<lparr> save_ai_error := Some ''new row violates row-level security policy'' \<rparr>"


section \<open>Properties of the similarity search\<close>

lemma pg_order_le:
  "pg_order a \<le> pg_order b \<longleftrightarrow>
     (case a of Num x \<Rightarrow> (case b of Num y \<Rightarrow> x \<le> y | NaN \<Rightarrow> True) | NaN \<Rightarrow> b = NaN)"
  by (cases a; cases b) auto

lemma match_where_iff:
  "match_where cdist q ids thr kd \<longleftrightarrow>
     doc_knowledge_base_id kd \<in> set ids
     \<and> (\<exists>e. doc_embedding kd = Some e \<and> (case cdist e q of Num d \<Rightarrow> 1 - d > thr | NaN \<Rightarrow> True))"
  by (cases "doc_embedding kd")
     (auto simp: match_where_def similarity_def split: pg_float.splits)

lemma mset_matching_documents:
  "mset (matching_documents cdist tie table q ids thr) =
     mset (filter (\<lambda>kd. doc_knowledge_base_id kd \<in> set ids
        \<and> (\<exists>e. doc_embedding kd = Some e \<and> (case cdist e q of Num d \<Rightarrow> 1 - d > thr | NaN \<Rightarrow> True)))
        table)"
proof -
  have "filter (match_where cdist q ids thr) table =
        filter (\<lambda>kd. doc_knowledge_base_id kd \<in> set ids
        \<and> (\<exists>e. doc_embedding kd = Some e \<and> (case cdist e q of Num d \<Rightarrow> 1 - d > thr | NaN \<Rightarrow> True)))
        table"
    by (rule filter_cong) (simp_all add: match_where_iff)
  then show ?thesis
    by (simp add: matching_documents_def del: mset_filter)
qed

lemma matching_documents_embedded:
  "kd \<in> set (matching_documents cdist tie table q ids thr) \<Longrightarrow> \<exists>e. doc_embedding kd = Some e"
  by (auto simp: matching_documents_def match_where_iff)

lemma sorted_matching_documents:
  "sorted_wrt (\<lambda>a b. \<forall>ea eb. doc_embedding a = Some ea \<and> doc_embedding b = Some eb \<longrightarrow>
       (case cdist ea q of
          Num x \<Rightarrow> (case cdist eb q of Num y \<Rightarrow> x \<le> y | NaN \<Rightarrow> True)
        | NaN \<Rightarrow> cdist eb q = NaN))
     (matching_documents cdist tie table q ids thr)"
proof -
  let ?xs = "filter (match_where cdist q ids thr) table"
  have "sorted (map (order_key cdist tie q) (sort_key (order_key cdist tie q) ?xs))"
    by (rule sorted_sort_key)
  then have s: "sorted_wrt (\<lambda>a b. order_key cdist tie q a \<le> order_key cdist tie q b)
               (sort_key (order_key cdist tie q) ?xs)"
    by (simp add: sorted_wrt_map)
  have imp: "order_key cdist tie q a \<le> order_key cdist tie q b \<Longrightarrow>
       (\<forall>ea eb. doc_embedding a = Some ea \<and> doc_embedding b = Some eb \<longrightarrow>
       (case cdist ea q of
          Num x \<Rightarrow> (case cdist eb q of Num y \<Rightarrow> x \<le> y | NaN \<Rightarrow> True)
        | NaN \<Rightarrow> cdist eb q = NaN))" for a b
  proof (intro allI impI)
    fix ea eb
    assume le: "order_key cdist tie q a \<le> order_key cdist tie q b"
      and e: "doc_embedding a = Some ea \<and> doc_embedding b = Some eb"
    then have "pg_order (cdist ea q) \<le> pg_order (cdist eb q)"
      by (auto simp: order_key_def less_eq_prod_def less_le)
    then show "case cdist ea q of
          Num x \<Rightarrow> (case cdist eb q of Num y \<Rightarrow> x \<le> y | NaN \<Rightarrow> True)
        | NaN \<Rightarrow> cdist eb q = NaN"
      by (simp add: pg_order_le)
  qed
  show ?thesis
    unfolding matching_documents_def
    by (rule sorted_wrt_mono_rel[OF _ s]) (use imp in blast)
qed


text \<open>
  C4, as stated, fails. A chunk with a zero vector as its embedding has the distance NaN
  to every query; its similarity is no number greater than the threshold 0.5, yet the
  search returns it, after the chunks whose similarity is a number. And a search with the
  count -1 returns no rows cut to a length but the error of the store.
\<close>

theorem match_nan_counterexample:
  "match_knowledge_documents example_cdist example_tie example_table_zero [1, 0] [''kb1''] (1 / 2) 5
     = Inr [\<lparr> row_id = ''d1'', row_knowledge_base_id = ''kb1'', row_content = ''red apple'',
              row_metadata = [], row_similarity = Some (Num 1) \<rparr>,
            \<lparr> row_id = ''d2'', row_knowledge_base_id = ''kb1'', row_content = ''green pear'',
              row_metadata = [], row_similarity = Some (Num (3 / 5)) \<rparr>,
            \<lparr> row_id = ''d0'', row_knowledge_base_id = ''kb1'', row_content = ''blank'',
              row_metadata = [], row_similarity = Some NaN \<rparr>]
   \<and> match_knowledge_documents example_cdist example_tie example_table_zero [1, 0] [''kb1''] (1 / 2) (- 1)
     = Inl (StoreError ''LIMIT must not be negative'')"
  by (simp add: match_knowledge_documents_def matching_documents_def match_where_def
      similarity_def order_key_def match_select_def example_cdist_def example_tie_def
      example_table_zero_def example_zero_def example_d1_def example_d2_def)

text \<open>
  C4, amended. For a count that is not negative, the search returns the first \<open>cnt\<close> rows
  made from a list \<open>docs\<close> of chunks. That list holds, as often as the table does, exactly
  the chunks that belong to one of the given knowledge bases, have an embedding, and
  whose distance \<open>d\<close> to the query is a number with \<open>1 - d\<close> strictly greater than the
  threshold (a chunk with \<open>1 - d\<close> equal to the threshold is not in it) or is NaN. The list
  is in ascending order of distance, NaN last, so the similarities that are numbers
  descend. Each row carries the id, knowledge base, content and metadata of its chunk and
  the similarity \<open>1 - d\<close>. The result has at most \<open>cnt\<close> rows.
\<close>

theorem match_threshold_order_limit:
  assumes "0 \<le> cnt"
  shows "\<exists>docs.
      match_knowledge_documents cdist tie table q ids thr cnt
        = Inr (take (nat cnt) (map (match_select cdist q) docs))
    \<and> mset docs = mset (filter (\<lambda>kd. doc_knowledge_base_id kd \<in> set ids
          \<and> (\<exists>e. doc_embedding kd = Some e
                \<and> (case cdist e q of Num d \<Rightarrow> 1 - d > thr | NaN \<Rightarrow> True))) table)
    \<and> sorted_wrt (\<lambda>a b. \<forall>ea eb. doc_embedding a = Some ea \<and> doc_embedding b = Some eb \<longrightarrow>
          (case cdist ea q of
             Num x \<Rightarrow> (case cdist eb q of Num y \<Rightarrow> x \<le> y | NaN \<Rightarrow> True)
           | NaN \<Rightarrow> cdist eb q = NaN)) docs
    \<and> (\<forall>kd \<in> set docs. \<exists>e. doc_embedding kd = Some e
          \<and> match_select cdist q kd =
              \<lparr> row_id = doc_id kd, row_knowledge_base_id = doc_knowledge_base_id kd,
                row_content = doc_content kd, row_metadata = doc_metadata kd,
                row_similarity = Some (case cdist e q of Num d \<Rightarrow> Num (1 - d) | NaN \<Rightarrow> NaN) \<rparr>)
    \<and> length (take (nat cnt) (map (match_select cdist q) docs)) \<le> nat cnt"
proof -
  let ?docs = "matching_documents cdist tie table q ids thr"
  have a: "match_knowledge_documents cdist tie table q ids thr cnt
        = Inr (take (nat cnt) (map (match_select cdist q) ?docs))"
    using assms by (simp add: match_knowledge_documents_def)
  have d: "\<forall>kd \<in> set ?docs. \<exists>e. doc_embedding kd = Some e
          \<and> match_select cdist q kd =
              \<lparr> row_id = doc_id kd, row_knowledge_base_id = doc_knowledge_base_id kd,
                row_content = doc_content kd, row_metadata = doc_metadata kd,
                row_similarity = Some (case cdist e q of Num d \<Rightarrow> Num (1 - d) | NaN \<Rightarrow> NaN) \<rparr>"
  proof
    fix kd
    assume "kd \<in> set ?docs"
    then obtain e where e: "doc_embedding kd = Some e"
      using matching_documents_embedded by blast
    have "pg_one_minus (cdist e q) = (case cdist e q of Num d \<Rightarrow> Num (1 - d) | NaN \<Rightarrow> NaN)"
      by (cases "cdist e q") simp_all
    then show "\<exists>e. doc_embedding kd = Some e
          \<and> match_select cdist q kd =
              \<lparr> row_id = doc_id kd, row_knowledge_base_id = doc_knowledge_base_id kd,
                row_content = doc_content kd, row_metadata = doc_metadata kd,
                row_similarity = Some (case cdist e q of Num d \<Rightarrow> Num (1 - d) | NaN \<Rightarrow> NaN) \<rparr>"
      using e by (simp add: match_select_def similarity_def)
  qed
  have g: "length (take (nat cnt) (map (match_select cdist q) ?docs)) \<le> nat cnt"
    by simp
  from a mset_matching_documents[of cdist tie table q ids thr]
    sorted_matching_documents[of cdist q tie table ids thr] d g
  show ?thesis by blast
qed

theorem match_threshold_order_limit_witness:
  "match_knowledge_documents example_cdist example_tie example_table [1, 0] [''kb1''] (3 / 5) 5
     = Inr [\<lparr> row_id = ''d1'', row_knowledge_base_id = ''kb1'', row_content = ''red apple'',
              row_metadata = [], row_similarity = Some (Num 1) \<rparr>]"
proof -
  have h: "(0::int) \<le> 5" by simp
  from match_threshold_order_limit[OF h, of example_cdist example_tie example_table "[1, 0]"
      "[''kb1'']" "3 / 5"]
  obtain docs where
    r: "match_knowledge_documents example_cdist example_tie example_table [1, 0] [''kb1''] (3 / 5) 5
       = Inr (take (nat 5) (map (match_select example_cdist [1, 0]) docs))"
    and m: "mset docs = mset (filter (\<lambda>kd. doc_knowledge_base_id kd \<in> set [''kb1'']
          \<and> (\<exists>e. doc_embedding kd = Some e
                \<and> (case example_cdist e [1, 0] of Num d \<Rightarrow> 1 - d > 3 / 5 | NaN \<Rightarrow> True))) example_table)"
    and s: "\<forall>kd \<in> set docs. \<exists>e. doc_embedding kd = Some e
          \<and> match_select example_cdist [1, 0] kd =
              \<lparr> row_id = doc_id kd, row_knowledge_base_id = doc_knowledge_base_id kd,
                row_content = doc_content kd, row_metadata = doc_metadata kd,
                row_similarity = Some (case example_cdist e [1, 0] of Num d \<Rightarrow> Num (1 - d) | NaN \<Rightarrow> NaN) \<rparr>"
    by blast
  have "filter (\<lambda>kd. doc_knowledge_base_id kd \<in> set [''kb1'']
          \<and> (\<exists>e. doc_embedding kd = Some e
                \<and> (case example_cdist e [1, 0] of Num d \<Rightarrow> 1 - d > 3 / 5 | NaN \<Rightarrow> True))) example_table
        = [example_d1]"
    by (simp add: example_table_def example_d1_def example_d2_def example_d3_def example_cdist_def)
  with m have "mset docs = mset [example_d1]" by (simp del: mset_filter)
  then have docs: "docs = [example_d1]" by (metis mset_single_iff_right)
  have "match_select example_cdist [1, 0] example_d1 =
      \<lparr> row_id = ''d1'', row_knowledge_base_id = ''kb1'', row_content = ''red apple'',
        row_metadata = [], row_similarity = Some (Num 1) \<rparr>"
    using s docs by (simp add: example_d1_def example_cdist_def)
  then show ?thesis using r docs by simp
qed


section \<open>Properties of the search endpoint\<close>



lemma match_empty_ids:
  "0 \<le> cnt \<Longrightarrow> match_knowledge_documents cdist tie table q [] thr cnt = Inr []"
  by (simp add: match_knowledge_documents_def matching_documents_def match_where_def)

lemma match_threshold_one:
  assumes "\<forall>kd \<in> set table. \<forall>e. doc_embedding kd = Some e \<longrightarrow> (\<exists>d. cdist e q = Num d \<and> 0 \<le> d)"
    and "0 \<le> cnt" and "1 \<le> thr"
  shows "match_knowledge_documents cdist tie table q ids thr cnt = Inr []"
proof -
  have "\<not> match_where cdist q ids thr kd" if mem: "kd \<in> set table" for kd
  proof (cases "doc_embedding kd")
    case None
    then show ?thesis by (simp add: match_where_def similarity_def)
  next
    case (Some e)
    obtain d where d: "cdist e q = Num d" "0 \<le> d"
      using assms(1) mem Some by blast
    have "1 - d \<le> thr" using d(2) assms(3) by linarith
    then show ?thesis using Some d(1) by (simp add: match_where_def similarity_def)
  qed
  then have "filter (match_where cdist q ids thr) table = []"
    by (simp add: filter_empty_conv)
  then show ?thesis using assms(2)
    by (simp add: match_knowledge_documents_def matching_documents_def)
qed

lemma handler_rejects_empty_ids:
  "json_get ''knowledgeBaseIds'' kvs = Some (JArr []) \<Longrightarrow>
     \<exists>e. search_handler embedQuery rpc (JObj kvs) = Response400 e"
  by (simp add: search_handler_def searchKnowledgeSchema_def split: sum.splits)

text \<open>
  C3, as stated, fails at the endpoint: a request with \<open>knowledgeBaseIds = []\<close> is answered
  with the validation error 400, not with an empty list.
\<close>

theorem search_empty_ids_counterexample:
  "search_handler example_embedQuery example_rpc example_request_no_ids
     = Response400 (ValidationError ''knowledgeBaseIds'')"
  by (simp add: search_handler_def searchKnowledgeSchema_def example_request_no_ids_def json_get_def)

text \<open>
  C3, amended. For a count that is not negative, the search function called with no
  knowledge-base ids returns the empty list; so it does for every threshold of at least 1
  when the distance of every chunk with an embedding to the query is a number that is not
  negative (no NaN, that is, no zero vector). The endpoint answers a request whose
  \<open>knowledgeBaseIds\<close> is the empty array with a validation error (400). For a valid
  request it answers an empty list from the store with 200 and the empty list, and a
  failure of the embedding provider or of the store with 500.
\<close>

theorem search_empty_cases:
  assumes "0 \<le> cnt"
  shows "match_knowledge_documents cdist tie table q [] thr cnt = Inr []
     \<and> (1 \<le> thr
          \<and> (\<forall>kd \<in> set table. \<forall>e. doc_embedding kd = Some e \<longrightarrow> (\<exists>d. cdist e q = Num d \<and> 0 \<le> d))
          \<longrightarrow> match_knowledge_documents cdist tie table q ids thr cnt = Inr [])
     \<and> (json_get ''knowledgeBaseIds'' kvs = Some (JArr []) \<longrightarrow>
          (\<exists>e. search_handler embedQuery rpc (JObj kvs) = Response400 e))
     \<and> (searchKnowledgeSchema raw = Inr body \<and> embedQuery (query body) = Inr qe
          \<and> rpc \<lparr> query_embedding = qe, match_threshold = threshold body,
                  match_count = limit body, knowledge_base_ids = knowledgeBaseIds body \<rparr> = Inr []
          \<longrightarrow> search_handler embedQuery rpc raw = Response200 [])
     \<and> (searchKnowledgeSchema raw = Inr body
          \<and> (embedQuery (query body) = Inl failure
              \<or> embedQuery (query body) = Inr qe
                \<and> rpc \<lparr> query_embedding = qe, match_threshold = threshold body,
                        match_count = limit body, knowledge_base_ids = knowledgeBaseIds body \<rparr>
                    = Inl store_failure)
          \<longrightarrow> search_handler embedQuery rpc raw = Response500 ''Vector search failed'')"
proof -
  have a: "match_knowledge_documents cdist tie table q [] thr cnt = Inr []"
    using match_empty_ids[OF assms] .
  have b: "1 \<le> thr
          \<and> (\<forall>kd \<in> set table. \<forall>e. doc_embedding kd = Some e \<longrightarrow> (\<exists>d. cdist e q = Num d \<and> 0 \<le> d))
          \<longrightarrow> match_knowledge_documents cdist tie table q ids thr cnt = Inr []"
    using match_threshold_one[of table cdist q cnt thr tie ids] assms by blast
  have c: "json_get ''knowledgeBaseIds'' kvs = Some (JArr []) \<longrightarrow>
          (\<exists>e. search_handler embedQuery rpc (JObj kvs) = Response400 e)"
    using handler_rejects_empty_ids by blast
  have d: "searchKnowledgeSchema raw = Inr body \<and> embedQuery (query body) = Inr qe
          \<and> rpc \<lparr> query_embedding = qe, match_threshold = threshold body,
                  match_count = limit body, knowledge_base_ids = knowledgeBaseIds body \<rparr> = Inr []
          \<longrightarrow> search_handler embedQuery rpc raw = Response200 []"
    by (simp add: search_handler_def)
  have e: "searchKnowledgeSchema raw = Inr body
          \<and> (embedQuery (query body) = Inl failure
              \<or> embedQuery (query body) = Inr qe
                \<and> rpc \<lparr> query_embedding = qe, match_threshold = threshold body,
                        match_count = limit body, knowledge_base_ids = knowledgeBaseIds body \<rparr>
                    = Inl store_failure)
          \<longrightarrow> search_handler embedQuery rpc raw = Response500 ''Vector search failed''"
    by (auto simp: search_handler_def)
  from a b c d e show ?thesis by blast
qed

theorem search_empty_cases_witness:
  "match_knowledge_documents example_cdist example_tie example_table [1, 0] [] (1 / 2) 5 = Inr []
   \<and> match_knowledge_documents example_cdist example_tie example_table [1, 0] [''kb1''] 1 5 = Inr []
   \<and> search_handler example_embedQuery example_rpc example_request_threshold_one = Response200 []"
proof -
  have cnt: "(0::int) \<le> 5" by simp
  have parsed: "searchKnowledgeSchema example_request_threshold_one
      = Inr \<lparr> query = ''fruit'', knowledgeBaseIds = [''kb1''], threshold = 1, limit = 5 \<rparr>"
    by (simp add: searchKnowledgeSchema_def example_request_threshold_one_def json_get_def)
  have dist: "\<forall>kd \<in> set example_table. \<forall>e. doc_embedding kd = Some e \<longrightarrow>
      (\<exists>d. example_cdist e [1, 0] = Num d \<and> 0 \<le> d)"
    by (simp add: example_table_def example_d1_def example_d2_def example_d3_def example_cdist_def)
       (rule exI[of _ "2 / 5"], simp)
  note th = search_empty_cases[where cdist = example_cdist and tie = example_tie and cnt = 5
        and table = example_table and q = "[1, 0]" and ids = "[''kb1'']"
        and kvs = "[]" and embedQuery = example_embedQuery and rpc = example_rpc
        and raw = example_request_threshold_one
        and body = "\<lparr> query = ''fruit'', knowledgeBaseIds = [''kb1''], threshold = 1, limit = 5 \<rparr>"
        and qe = "[1, 0]", OF cnt]
  have one: "match_knowledge_documents example_cdist example_tie example_table [1, 0] [''kb1''] 1 5 = Inr []"
    using th[where thr = 1] dist by simp
  have none: "match_knowledge_documents example_cdist example_tie example_table [1, 0] [] (1 / 2) 5 = Inr []"
    using th[where thr = "1 / 2"] by simp
  have rpc: "example_rpc \<lparr> query_embedding = [1, 0], match_threshold = 1, match_count = 5,
      knowledge_base_ids = [''kb1''] \<rparr> = Inr []"
    using one by (simp add: example_rpc_def)
  have "search_handler example_embedQuery example_rpc example_request_threshold_one = Response200 []"
    using th[where thr = 1] parsed rpc by (simp add: example_embedQuery_def)
  then show ?thesis using one none by simp
qed

section \<open>Properties of the knowledge-base tool\<close>

lemma ilike_percent_all: "ilike lc [CHR ''%''] s"
  by (induction s) simp_all

lemma ilike_percent:
  "ilike lc (CHR ''%'' # rest) s \<longleftrightarrow> (\<exists>a b. s = a @ b \<and> ilike lc rest b)"
proof (induction s)
  case Nil
  then show ?case by simp
next
  case (Cons c cs)
  have "ilike lc (CHR ''%'' # rest) (c # cs) \<longleftrightarrow> ilike lc rest (c # cs) \<or> ilike lc (CHR ''%'' # rest) cs"
    by simp
  also have "\<dots> \<longleftrightarrow> ilike lc rest (c # cs) \<or> (\<exists>a b. cs = a @ b \<and> ilike lc rest b)"
    using Cons.IH by simp
  also have "\<dots> \<longleftrightarrow> (\<exists>a b. c # cs = a @ b \<and> ilike lc rest b)"
  proof
    assume "ilike lc rest (c # cs) \<or> (\<exists>a b. cs = a @ b \<and> ilike lc rest b)"
    then show "\<exists>a b. c # cs = a @ b \<and> ilike lc rest b"
    proof
      assume "ilike lc rest (c # cs)"
      then have "c # cs = [] @ (c # cs) \<and> ilike lc rest (c # cs)" by simp
      then show ?thesis by blast
    next
      assume "\<exists>a b. cs = a @ b \<and> ilike lc rest b"
      then obtain a b where "cs = a @ b" "ilike lc rest b" by blast
      then have "c # cs = (c # a) @ b \<and> ilike lc rest b" by simp
      then show ?thesis by blast
    qed
  next
    assume "\<exists>a b. c # cs = a @ b \<and> ilike lc rest b"
    then obtain a b where ab: "c # cs = a @ b" "ilike lc rest b" by blast
    show "ilike lc rest (c # cs) \<or> (\<exists>a b. cs = a @ b \<and> ilike lc rest b)"
    proof (cases a)
      case Nil
      then show ?thesis using ab by simp
    next
      case (Cons x xs)
      then have "cs = xs @ b" using ab(1) by simp
      then show ?thesis using ab(2) by blast
    qed
  qed
  finally show ?case .
qed

lemma ilike_plain:
  assumes "\<forall>c \<in> set ps. plain_char c"
  shows "ilike lc (ps @ rest) s \<longleftrightarrow>
           (\<exists>a b. s = a @ b \<and> map lc a = map lc ps \<and> ilike lc rest b)"
  using assms
proof (induction ps arbitrary: s)
  case Nil
  then show ?case by simp
next
  case (Cons p ps)
  then have p: "p \<noteq> CHR ''%''" "p \<noteq> CHR ''_''" "p \<noteq> CHR 0x5C"
    by (simp_all add: plain_char_def)
  have ih: "\<And>t. ilike lc (ps @ rest) t \<longleftrightarrow>
           (\<exists>a b. t = a @ b \<and> map lc a = map lc ps \<and> ilike lc rest b)"
    using Cons by simp
  show ?case
  proof (cases s)
    case Nil
    then show ?thesis using p by simp
  next
    case (Cons c cs)
    have "ilike lc ((p # ps) @ rest) (c # cs) \<longleftrightarrow> lc p = lc c \<and> ilike lc (ps @ rest) cs"
      using p by simp
    also have "\<dots> \<longleftrightarrow> lc p = lc c \<and>
        (\<exists>a b. cs = a @ b \<and> map lc a = map lc ps \<and> ilike lc rest b)"
      using ih by simp
    also have "\<dots> \<longleftrightarrow> (\<exists>a b. c # cs = a @ b \<and> map lc a = map lc (p # ps) \<and> ilike lc rest b)"
    proof
      assume "lc p = lc c \<and>
        (\<exists>a b. cs = a @ b \<and> map lc a = map lc ps \<and> ilike lc rest b)"
      then obtain a b where "lc p = lc c" "cs = a @ b"
        "map lc a = map lc ps" "ilike lc rest b" by blast
      then have "c # cs = (c # a) @ b \<and> map lc (c # a) = map lc (p # ps) \<and> ilike lc rest b"
        by simp
      then show "\<exists>a b. c # cs = a @ b \<and> map lc a = map lc (p # ps) \<and> ilike lc rest b"
        by blast
    next
      assume "\<exists>a b. c # cs = a @ b \<and> map lc a = map lc (p # ps) \<and> ilike lc rest b"
      then obtain a b where ab: "c # cs = a @ b" "map lc a = map lc (p # ps)"
        "ilike lc rest b" by blast
      then obtain x xs where a: "a = x # xs" by (cases a) auto
      then have "x = c" "cs = xs @ b" "lc x = lc p" "map lc xs = map lc ps"
        using ab by simp_all
      then show "lc p = lc c \<and>
        (\<exists>a b. cs = a @ b \<and> map lc a = map lc ps \<and> ilike lc rest b)"
        using ab(3) by auto
    qed
    finally show ?thesis using Cons by simp
  qed
qed

lemma postgrest_pattern_plain:
  "\<forall>c \<in> set q. plain_char c \<Longrightarrow> postgrest_pattern (''%'' @ q @ ''%'') = CHR ''%'' # q @ [CHR ''%'']"
  by (simp add: postgrest_pattern_def plain_char_def map_idI)

lemma ilike_plain_query:
  assumes "\<forall>c \<in> set q. plain_char c"
  shows "ilike lc (postgrest_pattern (''%'' @ q @ ''%'')) s \<longleftrightarrow>
           (\<exists>pre mid post. s = pre @ mid @ post \<and> map lc mid = map lc q)"
proof -
  have "ilike lc (CHR ''%'' # q @ [CHR ''%'']) s \<longleftrightarrow> (\<exists>a b. s = a @ b \<and> ilike lc (q @ [CHR ''%'']) b)"
    by (rule ilike_percent)
  also have "\<dots> \<longleftrightarrow> (\<exists>a b. s = a @ b \<and>
      (\<exists>m post. b = m @ post \<and> map lc m = map lc q \<and> ilike lc [CHR ''%''] post))"
    using ilike_plain[OF assms, where rest = "[CHR ''%'']" and lc = lc] by simp
  also have "\<dots> \<longleftrightarrow> (\<exists>pre mid post. s = pre @ mid @ post \<and> map lc mid = map lc q)"
    using ilike_percent_all by blast
  finally show ?thesis using postgrest_pattern_plain[OF assms] by simp
qed


text \<open>
  C2, as stated, fails: the tool does not search by similarity. The chunk "red apple" has
  the embedding of the query "fruit", so the similarity search returns it at any threshold
  below 1; the tool looks for the text of the query inside the chunks and finds nothing.
\<close>

theorem rag_tool_counterexample:
  "createRAGTool lower_char None example_table [''kb1''] ''fruit'' = ''No relevant information found.''
   \<and> match_knowledge_documents example_cdist example_tie example_table [1, 0] [''kb1''] (1 / 2) 5
      = Inr [\<lparr> row_id = ''d1'', row_knowledge_base_id = ''kb1'', row_content = ''red apple'',
               row_metadata = [], row_similarity = Some (Num 1) \<rparr>,
             \<lparr> row_id = ''d2'', row_knowledge_base_id = ''kb1'', row_content = ''green pear'',
               row_metadata = [], row_similarity = Some (Num (3 / 5)) \<rparr>]"
proof -
  have "rag_select lower_char example_table [''kb1''] ''fruit'' = []"
    by code_simp
  then have "createRAGTool lower_char None example_table [''kb1''] ''fruit'' = ''No relevant information found.''"
    by (simp add: createRAGTool_def)
  moreover have "match_knowledge_documents example_cdist example_tie example_table [1, 0] [''kb1''] (1 / 2) 5
      = Inr [\<lparr> row_id = ''d1'', row_knowledge_base_id = ''kb1'', row_content = ''red apple'',
               row_metadata = [], row_similarity = Some (Num 1) \<rparr>,
             \<lparr> row_id = ''d2'', row_knowledge_base_id = ''kb1'', row_content = ''green pear'',
               row_metadata = [], row_similarity = Some (Num (3 / 5)) \<rparr>]"
    by (simp add: match_knowledge_documents_def matching_documents_def match_where_def
      similarity_def order_key_def match_select_def example_cdist_def example_tie_def
      example_table_def example_d1_def example_d2_def example_d3_def)
  ultimately show ?thesis by simp
qed

text \<open>
  C2, amended. For a non-empty list of knowledge-base ids the tool list starts with one
  tool named \<open>search_knowledge_base\<close>, followed by the plugin tools. Called with a query,
  the tool takes, in the order of the table, the contents of the first 5 chunks that
  belong to one of exactly those knowledge bases and whose content matches the pattern
  \<open>%query%\<close> under \<open>ILIKE\<close>, not those that are similar to the query. Its answer is the
  sentinel "No relevant information found." when there is no such chunk, and otherwise
  these contents, each but the first after two line feeds; it is the text
  "Error searching knowledge base: ..." with the message of the store when the store
  fails. For a query without the characters \<open>%\<close>, \<open>_\<close>, \<open>*\<close> and backslash, a content matches
  the pattern if and only if it contains the query, without regard to case (a part of the
  content and the query are the same after the folding of case of the database); these
  four characters of a query are read as parts of the pattern.
\<close>

theorem rag_tool_substring_search:
  assumes "kbIds \<noteq> []"
  shows "build_tools kbIds plugins = RAGTool kbIds # map PluginTool plugins
     \<and> tool_name (RAGTool kbIds) = ''search_knowledge_base''
     \<and> createRAGTool lc None table kbIds q =
         (case take 5 (map doc_content
                 (filter (\<lambda>d. doc_knowledge_base_id d \<in> set kbIds
                            \<and> ilike lc (postgrest_pattern (''%'' @ q @ ''%'')) (doc_content d)) table)) of
            [] \<Rightarrow> ''No relevant information found.''
          | c # cs \<Rightarrow> c @ concat (map (\<lambda>z. CHR 0x0A # CHR 0x0A # z) cs))
     \<and> createRAGTool lc (Some m) table kbIds q = ''Error searching knowledge base: '' @ m
     \<and> ((\<forall>c \<in> set q. c \<noteq> CHR ''%'' \<and> c \<noteq> CHR ''_'' \<and> c \<noteq> CHR ''*'' \<and> c \<noteq> CHR 0x5C) \<longrightarrow>
          (\<forall>s. ilike lc (postgrest_pattern (''%'' @ q @ ''%'')) s \<longleftrightarrow>
               (\<exists>pre mid post. s = pre @ mid @ post \<and> map lc mid = map lc q)))"
proof -
  have a: "build_tools kbIds plugins = RAGTool kbIds # map PluginTool plugins"
    using assms by (simp add: build_tools_def)
  have b: "createRAGTool lc None table kbIds q =
         (case take 5 (map doc_content
                 (filter (\<lambda>d. doc_knowledge_base_id d \<in> set kbIds
                            \<and> ilike lc (postgrest_pattern (''%'' @ q @ ''%'')) (doc_content d)) table)) of
            [] \<Rightarrow> ''No relevant information found.''
          | c # cs \<Rightarrow> c @ concat (map (\<lambda>z. CHR 0x0A # CHR 0x0A # z) cs))"
  proof -
    have sep: "(@) [CHR 0x0A, CHR 0x0A] = (\<lambda>z. CHR 0x0A # CHR 0x0A # z)"
      by (rule ext) simp
    show ?thesis
      using assms
      by (simp add: createRAGTool_def rag_select_def Let_def join_def newline2_def sep
          split: list.splits)
  qed
  have c: "createRAGTool lc (Some m) table kbIds q = ''Error searching knowledge base: '' @ m"
    using assms by (simp add: createRAGTool_def)
  have d: "(\<forall>c \<in> set q. c \<noteq> CHR ''%'' \<and> c \<noteq> CHR ''_'' \<and> c \<noteq> CHR ''*'' \<and> c \<noteq> CHR 0x5C) \<longrightarrow>
          (\<forall>s. ilike lc (postgrest_pattern (''%'' @ q @ ''%'')) s \<longleftrightarrow>
               (\<exists>pre mid post. s = pre @ mid @ post \<and> map lc mid = map lc q))"
    using ilike_plain_query[of q] by (simp add: plain_char_def)
  from a b c d show ?thesis by simp
qed

theorem rag_tool_substring_search_witness:
  "build_tools [''kb1''] [example_plugin] = [RAGTool [''kb1''], PluginTool example_plugin]
   \<and> createRAGTool lower_char None example_table [''kb1''] ''E'' = ''red apple'' @ [CHR 0x0A, CHR 0x0A] @ ''green pear''
   \<and> createRAGTool lower_char None example_table [''kb1''] ''fruit'' = ''No relevant information found.''
   \<and> createRAGTool lower_char None example_patterns [''kb1''] ''a_b'' = ''axb'' @ [CHR 0x0A, CHR 0x0A] @ ''A_B''
   \<and> createRAGTool lower_char None example_patterns [''kb1''] ''a*b'' = ''axb'' @ [CHR 0x0A, CHR 0x0A] @ ''A_B''
   \<and> createRAGTool lower_char None example_patterns [''kb1''] [CHR ''a'', CHR 0x5C, CHR ''_'', CHR ''b''] = ''A_B''"
proof -
  have ne: "[''kb1''] \<noteq> ([] :: uuid list)" by simp
  have s1: "take 5 (map doc_content
                 (filter (\<lambda>d. doc_knowledge_base_id d \<in> set [''kb1'']
                            \<and> ilike lower_char (postgrest_pattern (''%'' @ ''E'' @ ''%'')) (doc_content d)) example_table))
            = [''red apple'', ''green pear'']"
    by code_simp
  have s2: "take 5 (map doc_content
                 (filter (\<lambda>d. doc_knowledge_base_id d \<in> set [''kb1'']
                            \<and> ilike lower_char (postgrest_pattern (''%'' @ ''fruit'' @ ''%'')) (doc_content d)) example_table))
            = []"
    by code_simp
  have s3: "take 5 (map doc_content
                 (filter (\<lambda>d. doc_knowledge_base_id d \<in> set [''kb1'']
                            \<and> ilike lower_char (postgrest_pattern (''%'' @ ''a_b'' @ ''%'')) (doc_content d)) example_patterns))
            = [''axb'', ''A_B'']"
    by code_simp
  have s4: "take 5 (map doc_content
                 (filter (\<lambda>d. doc_knowledge_base_id d \<in> set [''kb1'']
                            \<and> ilike lower_char (postgrest_pattern (''%'' @ ''a*b'' @ ''%'')) (doc_content d)) example_patterns))
            = [''axb'', ''A_B'']"
    by code_simp
  have s5: "take 5 (map doc_content
                 (filter (\<lambda>d. doc_knowledge_base_id d \<in> set [''kb1'']
                            \<and> ilike lower_char (postgrest_pattern (''%'' @ [CHR ''a'', CHR 0x5C, CHR ''_'', CHR ''b''] @ ''%''))
                                 (doc_content d)) example_patterns))
            = [''A_B'']"
    by code_simp
  note th = rag_tool_substring_search[where kbIds = "[''kb1'']" and plugins = "[example_plugin]"
      and lc = lower_char and m = "''x''", OF ne]
  show ?thesis
    using th[where table = example_table and q = "''E''"]
      th[where table = example_table and q = "''fruit''"]
      th[where table = example_patterns and q = "''a_b''"]
      th[where table = example_patterns and q = "''a*b''"]
      th[where table = example_patterns and q = "[CHR ''a'', CHR 0x5C, CHR ''_'', CHR ''b'']"]
    by (simp only: s1 s2 s3 s4 s5) simp
qed


section \<open>Properties of the plugin sandbox\<close>

text \<open>
  What the tool does in each kind of execution. The tool function itself always returns:
  a time-out and an exception posted by the worker script become error texts, and the
  worker is terminated after at most 5000 ms. Only the error event of the worker leaves
  an error raised in the host.
\<close>

lemma plugin_tool_cases:
  "(\<exists>out. returned (createPluginTool p ex) = Inr out)
   \<and> terminated_at (runPluginInSandbox ex) \<le> 5000
   \<and> (behaviour ex = PluginNeverSettles \<or> 5000 \<le> elapsed_ms ex \<longrightarrow>
         runPluginInSandbox ex =
           \<lparr> settled = Inl ''Plugin execution timed out'', terminated_at = 5000, host_error = None \<rparr>
       \<and> createPluginTool p ex =
           \<lparr> returned = Inr (ToolText (''Error executing plugin '' @ plugin_name p
                                        @ '': Plugin execution timed out'')),
             raised_in_host = None \<rparr>)
   \<and> (behaviour ex = PluginReturns v \<and> elapsed_ms ex < 5000 \<longrightarrow>
         createPluginTool p ex = \<lparr> returned = Inr (PluginValue v), raised_in_host = None \<rparr>)
   \<and> (behaviour ex = PluginThrows err \<and> elapsed_ms ex < 5000 \<longrightarrow>
         createPluginTool p ex =
           \<lparr> returned = Inr (ToolText (''Error executing plugin '' @ plugin_name p @ '': ''
               @ (case thrown_message err of
                    None \<Rightarrow> (if thrown_string err = [] then ''Plugin execution failed''
                              else thrown_string err)
                  | Some m \<Rightarrow> (if m \<noteq> [] then m
                               else if thrown_string err = [] then ''Plugin execution failed''
                               else thrown_string err)))),
             raised_in_host = None \<rparr>)
   \<and> (behaviour ex = PluginUncaught m \<and> elapsed_ms ex < 5000 \<longrightarrow>
         createPluginTool p ex =
           \<lparr> returned = Inr (ToolText (''Error executing plugin '' @ plugin_name p @ '': '' @ m)),
             raised_in_host = Some m \<rparr>)"
  by (cases "behaviour ex")
     (auto simp: createPluginTool_def runPluginInSandbox_def timeout_ms_def error_text_def Let_def
           split: sum.splits option.splits worker_data.splits)

text \<open>
  C7. A plugin whose code lets an exception escape from a timer callback, while the
  promise it returns never settles: the worker reports an error event after 3 ms, the
  tool returns an error text, and the error of the worker is raised in the host, outside
  the tool function and its \<open>try\<close> block.
\<close>

theorem plugin_uncaught_reaches_host:
  "createPluginTool example_plugin example_uncaught =
     \<lparr> returned = Inr (ToolText ''Error executing plugin weather: Uncaught Error: boom''),
       raised_in_host = Some ''Uncaught Error: boom'' \<rparr>
   \<and> runPluginInSandbox example_uncaught =
     \<lparr> settled = Inl ''Uncaught Error: boom'', terminated_at = 3,
       host_error = Some ''Uncaught Error: boom'' \<rparr>"
  by (simp add: createPluginTool_def runPluginInSandbox_def timeout_ms_def Let_def
      example_plugin_def example_uncaught_def)

text \<open>The same tool on a plugin that never settles, and on two plugins that throw.\<close>

lemma plugin_tool_examples:
  "createPluginTool example_plugin example_hanging =
     \<lparr> returned = Inr (ToolText ''Error executing plugin weather: Plugin execution timed out''),
       raised_in_host = None \<rparr>
   \<and> terminated_at (runPluginInSandbox example_hanging) = 5000
   \<and> createPluginTool example_plugin example_throwing =
     \<lparr> returned = Inr (ToolText ''Error executing plugin weather: boom''), raised_in_host = None \<rparr>
   \<and> createPluginTool example_plugin example_throwing_text =
     \<lparr> returned = Inr (ToolText ''Error executing plugin weather: oops''), raised_in_host = None \<rparr>"
  by (simp add: createPluginTool_def runPluginInSandbox_def timeout_ms_def Let_def error_text_def
      example_plugin_def example_hanging_def example_throwing_def example_throwing_text_def)

section \<open>Properties of the conversation orchestrator\<close>

lemma chunk_texts_nonempty:
  "s \<in> set (chunk_texts cs) \<Longrightarrow> s \<noteq> []"
  by (induction cs rule: chunk_texts.induct) (auto split: if_splits)

lemma chunk_texts_explicit:
  "chunk_texts cs =
     concat (map (\<lambda>c. case c of StringContent s \<Rightarrow> (if s = [] then [] else [s])
                             | OtherContent \<Rightarrow> []) cs)"
  by (induction cs rule: chunk_texts.induct) auto

lemma concat_chunk_texts_empty_iff:
  "concat (chunk_texts cs) = [] \<longleftrightarrow> chunk_texts cs = []"
proof
  assume "concat (chunk_texts cs) = []"
  then have "\<forall>s \<in> set (chunk_texts cs). s = []" by simp
  then show "chunk_texts cs = []"
    using chunk_texts_nonempty[of _ cs]
    by (cases "chunk_texts cs") force+
next
  assume "chunk_texts cs = []"
  then show "concat (chunk_texts cs) = []" by simp
qed

lemma inserted_append:
  "inserted (xs @ ys) = inserted xs @ inserted ys"
  by (induction xs rule: inserted.induct) auto

lemma inserted_yields:
  "inserted (map Yield ss) = []"
  by (induction ss) auto

text \<open>
  C6, as stated, fails in its "if": the generation streams the two increments "Hel" and
  "lo", the store refuses the insert of the character's message (as it does when the check
  of the policy \<open>messages_insert_by_member\<close> fails), no message of the character is stored,
  and the generator throws.
\<close>

theorem refused_reply_counterexample:
  "streamMessage example_refused_reply ''c1'' ''p1'' [TextPart ''hi''] =
     \<lparr> effects =
         [InsertMessage \<lparr> msg_chat_id = ''c1'', msg_sender = SenderUser ''p1'',
                          msg_content = [TextPart ''hi''] \<rparr>,
          ModelCall [], Yield ''Hel'', Yield ''lo''],
       finished = Threw ''new row violates row-level security policy'' \<rparr>"
  by (simp add: streamMessage_def Let_def example_refused_reply_def example_generation_def
      user_message_def build_tools_def full_response_def)

text \<open>
  C6, amended. With \<open>u\<close> the row of the user's message and \<open>texts\<close> the non-empty strings
  among the contents of the streamed chunks, in every run of \<open>streamMessage\<close>: when the
  insert of \<open>u\<close> fails the generator throws and nothing else happens, so no model call is
  made; otherwise that insert is the first effect, before any model call, and \<open>u\<close> stays
  in the table, to which rows are only appended, whatever happens later. A chat without
  a character yields "No AI in this chat."; an error while gathering is thrown. In a run
  that reaches the generation, the model is called with the tools, every text is yielded,
  a failure of the model is yielded as the marker "[Error: ...]" on a new line, and then,
  if and only if some text was produced, the insert of the character's message, which
  holds the accumulated text, is tried: it is stored when the store accepts the insert,
  and when the store refuses it nothing is stored and the generator throws. So a message
  of the character is stored if and only if the run reached the generation, some text was
  produced and the store accepted the insert; a generation that fails with no text stores
  none and ends with the marker.
\<close>

theorem streamMessage_persistence:
  "(let u = \<lparr> msg_chat_id = chatId, msg_sender = SenderUser profileId, msg_content = msg \<rparr>;
        r = streamMessage env chatId profileId msg;
        texts = concat (map (\<lambda>c. case c of StringContent s \<Rightarrow> (if s = [] then [] else [s])
                                          | OtherContent \<Rightarrow> []) (agent_chunks env))
    in (save_user_error env = Some e \<longrightarrow> r = \<lparr> effects = [], finished = Threw e \<rparr>)
     \<and> (save_user_error env = None \<longrightarrow>
          (\<exists>rest. effects r = InsertMessage u # rest
                 \<and> messages_after table r = table @ u # inserted rest))
     \<and> (save_user_error env = None \<and> chat_character env = None \<longrightarrow>
          r = \<lparr> effects = [InsertMessage u, Yield ''No AI in this chat.''], finished = Returned \<rparr>)
     \<and> (save_user_error env = None \<and> chat_character env = Some ai \<and> gather_error env = Some e \<longrightarrow>
          r = \<lparr> effects = [InsertMessage u], finished = Threw e \<rparr>)
     \<and> (save_user_error env = None \<and> chat_character env = Some ai \<and> gather_error env = None \<longrightarrow>
          effects r =
            [InsertMessage u,
             ModelCall ((if kb_ids env = [] then [] else [RAGTool (kb_ids env)])
                        @ map PluginTool (subscribed_plugins env))]
            @ map Yield texts
            @ (case agent_error env of
                 None \<Rightarrow> []
               | Some failure \<Rightarrow> [Yield (CHR 0x0A # ''[Error: '' @ failure @ '']'')])
            @ (if texts \<noteq> [] \<and> save_ai_error env = None
               then [InsertMessage \<lparr> msg_chat_id = chatId,
                                      msg_sender = SenderCharacter (character_id ai),
                                      msg_content = [TextPart (concat texts)] \<rparr>]
                    @ (case update_error env of
                         None \<Rightarrow> [UpdateLastMessage chatId (preview_of env (concat texts))]
                       | Some x \<Rightarrow> [])
               else [])
          \<and> finished r =
              (if texts \<noteq> []
               then (case save_ai_error env of None \<Rightarrow> Returned | Some x \<Rightarrow> Threw x)
               else Returned))
     \<and> ((\<exists>m \<in> set (inserted (effects r)). \<exists>c. msg_sender m = SenderCharacter c)
          \<longleftrightarrow> save_user_error env = None \<and> chat_character env \<noteq> None \<and> gather_error env = None
              \<and> texts \<noteq> [] \<and> save_ai_error env = None))"
proof -
  let ?u = "\<lparr> msg_chat_id = chatId, msg_sender = SenderUser profileId, msg_content = msg \<rparr>"
  let ?r = "streamMessage env chatId profileId msg"
  let ?texts = "chunk_texts (agent_chunks env)"
  have ne: "full_response env \<noteq> [] \<longleftrightarrow> ?texts \<noteq> []"
    unfolding full_response_def using concat_chunk_texts_empty_iff[of "agent_chunks env"] by blast
  have a: "save_user_error env = Some e \<longrightarrow> ?r = \<lparr> effects = [], finished = Threw e \<rparr>"
    by (simp add: streamMessage_def)
  have b: "save_user_error env = None \<longrightarrow>
          (\<exists>rest. effects ?r = InsertMessage ?u # rest
                 \<and> messages_after table ?r = table @ ?u # inserted rest)"
    by (auto simp: streamMessage_def Let_def messages_after_def user_message_def
        split: option.splits)
  have c: "save_user_error env = None \<and> chat_character env = None \<longrightarrow>
          ?r = \<lparr> effects = [InsertMessage ?u, Yield ''No AI in this chat.''], finished = Returned \<rparr>"
    by (simp add: streamMessage_def Let_def user_message_def)
  have d: "save_user_error env = None \<and> chat_character env = Some ai \<and> gather_error env = Some e \<longrightarrow>
          ?r = \<lparr> effects = [InsertMessage ?u], finished = Threw e \<rparr>"
    by (simp add: streamMessage_def Let_def user_message_def)
  have f: "save_user_error env = None \<and> chat_character env = Some ai \<and> gather_error env = None \<longrightarrow>
          effects ?r =
            [InsertMessage ?u,
             ModelCall ((if kb_ids env = [] then [] else [RAGTool (kb_ids env)])
                        @ map PluginTool (subscribed_plugins env))]
            @ map Yield ?texts
            @ (case agent_error env of
                 None \<Rightarrow> []
               | Some failure \<Rightarrow> [Yield (CHR 0x0A # ''[Error: '' @ failure @ '']'')])
            @ (if ?texts \<noteq> [] \<and> save_ai_error env = None
               then [InsertMessage \<lparr> msg_chat_id = chatId,
                                      msg_sender = SenderCharacter (character_id ai),
                                      msg_content = [TextPart (concat ?texts)] \<rparr>]
                    @ (case update_error env of
                         None \<Rightarrow> [UpdateLastMessage chatId (preview_of env (concat ?texts))]
                       | Some x \<Rightarrow> [])
               else [])
          \<and> finished ?r =
              (if ?texts \<noteq> []
               then (case save_ai_error env of None \<Rightarrow> Returned | Some x \<Rightarrow> Threw x)
               else Returned)"
    using ne
    by (auto simp: streamMessage_def Let_def user_message_def ai_message_def build_tools_def
        error_marker_def full_response_def split: option.splits)
  have g: "(\<exists>m \<in> set (inserted (effects ?r)). \<exists>c. msg_sender m = SenderCharacter c)
          \<longleftrightarrow> save_user_error env = None \<and> chat_character env \<noteq> None \<and> gather_error env = None
              \<and> ?texts \<noteq> [] \<and> save_ai_error env = None"
    using ne
    by (auto simp: streamMessage_def Let_def user_message_def ai_message_def inserted_append
        inserted_yields split: option.splits)
  show ?thesis
    unfolding Let_def chunk_texts_explicit[symmetric]
    using a b c d f g by blast
qed

theorem streamMessage_persistence_witness:
  "streamMessage example_failed_generation ''c1'' ''p1'' [TextPart ''hi''] =
     \<lparr> effects =
         [InsertMessage \<lparr> msg_chat_id = ''c1'', msg_sender = SenderUser ''p1'',
                          msg_content = [TextPart ''hi''] \<rparr>,
          ModelCall [], Yield (CHR 0x0A # ''[Error: quota]'')],
       finished = Returned \<rparr>
   \<and> streamMessage example_generation ''c1'' ''p1'' [TextPart ''hi''] =
     \<lparr> effects =
         [InsertMessage \<lparr> msg_chat_id = ''c1'', msg_sender = SenderUser ''p1'',
                          msg_content = [TextPart ''hi''] \<rparr>,
          ModelCall [], Yield ''Hel'', Yield ''lo'',
          InsertMessage \<lparr> msg_chat_id = ''c1'', msg_sender = SenderCharacter ''ch1'',
                          msg_content = [TextPart ''Hello''] \<rparr>,
          UpdateLastMessage ''c1'' ''Hello''],
       finished = Returned \<rparr>
   \<and> streamMessage example_rejected_insert ''c1'' ''p1'' [TextPart ''hi'']
       = \<lparr> effects = [], finished = Threw ''store down'' \<rparr>"
proof -
  note th = streamMessage_persistence[where chatId = "''c1''" and profileId = "''p1''"
      and msg = "[TextPart ''hi'']" and table = "[]"
      and ai = "\<lparr> character_id = ''ch1'', character_name = ''Azusa'' \<rparr>"]
  have r1: "streamMessage example_failed_generation ''c1'' ''p1'' [TextPart ''hi''] =
     \<lparr> effects = effects (streamMessage example_failed_generation ''c1'' ''p1'' [TextPart ''hi'']),
       finished = finished (streamMessage example_failed_generation ''c1'' ''p1'' [TextPart ''hi'']) \<rparr>"
    by simp
  have r2: "streamMessage example_generation ''c1'' ''p1'' [TextPart ''hi''] =
     \<lparr> effects = effects (streamMessage example_generation ''c1'' ''p1'' [TextPart ''hi'']),
       finished = finished (streamMessage example_generation ''c1'' ''p1'' [TextPart ''hi'']) \<rparr>"
    by simp
  have e1: "effects (streamMessage example_failed_generation ''c1'' ''p1'' [TextPart ''hi'']) =
         [InsertMessage \<lparr> msg_chat_id = ''c1'', msg_sender = SenderUser ''p1'',
                          msg_content = [TextPart ''hi''] \<rparr>,
          ModelCall [], Yield (CHR 0x0A # ''[Error: quota]'')]
      \<and> finished (streamMessage example_failed_generation ''c1'' ''p1'' [TextPart ''hi'']) = Returned"
    using th[where env = example_failed_generation and e = "''x''"]
    by (simp add: Let_def example_failed_generation_def)
  have e2: "effects (streamMessage example_generation ''c1'' ''p1'' [TextPart ''hi'']) =
         [InsertMessage \<lparr> msg_chat_id = ''c1'', msg_sender = SenderUser ''p1'',
                          msg_content = [TextPart ''hi''] \<rparr>,
          ModelCall [], Yield ''Hel'', Yield ''lo'',
          InsertMessage \<lparr> msg_chat_id = ''c1'', msg_sender = SenderCharacter ''ch1'',
                          msg_content = [TextPart ''Hello''] \<rparr>,
          UpdateLastMessage ''c1'' ''Hello'']
      \<and> finished (streamMessage example_generation ''c1'' ''p1'' [TextPart ''hi'']) = Returned"
    using th[where env = example_generation and e = "''x''"]
    by (simp add: Let_def example_generation_def)
  have e3: "streamMessage example_rejected_insert ''c1'' ''p1'' [TextPart ''hi'']
       = \<lparr> effects = [], finished = Threw ''store down'' \<rparr>"
    using th[where env = example_rejected_insert and e = "''store down''"]
    by (simp add: Let_def example_rejected_insert_def)
  show ?thesis
    using r1 r2 e1 e2 e3 by (metis (no_types, lifting))
qed


section \<open>Properties of the document parser\<close>

lemma worker_parseFileContent_never_rejects:
  "\<exists>loader. worker_parseFileContent fileType fileName = Inr loader"
  by (simp add: worker_parseFileContent_def Let_def)

lemma parseFileContent_rejects_doc:
  assumes "to_lower fileType = ''application/msword''"
    and "\<not> ends_with fileName ''.pdf''" and "\<not> ends_with fileName ''.docx''"
    and "\<not> ends_with fileName ''.pptx''" and "\<not> ends_with fileName ''.csv''"
    and "\<not> ends_with fileName ''.json''"
  shows "parseFileContent fileType fileName = Inl UnsupportedDoc"
  using assms by (simp add: parseFileContent_def Let_def)

text \<open>
  C8. A Word 97 document, with the MIME type \<open>application/msword\<close> and the name
  \<open>report.doc\<close>, is rejected by the parser of the knowledge function, and is handed to the
  plain-text loader by the parser of the embedding worker.
\<close>

theorem worker_parser_legacy_doc:
  "legacy_office ''application/msword'' ''report.doc''
   \<and> parseFileContent ''application/msword'' ''report.doc'' = Inl UnsupportedDoc
   \<and> worker_parseFileContent ''application/msword'' ''report.doc'' = Inr TextLoader"
  by code_simp

section \<open>Properties of the ingestion worker\<close>

lemma update_file_Nil:
  "update_file fid columns [] = []"
  by (simp add: update_file_def)

lemma update_file_status_Cons:
  "update_file fid [SetStatus s] (f # fs) =
     (if kf_id f = fid then f \<lparr> kf_status := s \<rparr> else f) # update_file fid [SetStatus s] fs"
  by (simp add: update_file_def)

lemma update_file_status_map:
  "update_file fid [SetStatus s] files =
     map (\<lambda>g. if kf_id g = fid then g \<lparr> kf_status := s \<rparr> else g) files"
  by (simp add: update_file_def)

lemma update_file_twice:
  "update_file fid [SetStatus s2] (update_file fid [SetStatus s1] files) =
     map (\<lambda>g. if kf_id g = fid then g \<lparr> kf_status := s2 \<rparr> else g) files"
  by (induction files) (simp_all add: update_file_status_map)

lemma map_nth_apply:
  "map (\<lambda>i. f (xs ! i)) [0 ..< length xs] = map f xs"
  by (rule nth_equalityI) simp_all

lemma select_pending_Some:
  assumes "select_pending files = Some f"
  shows "f \<in> set files \<and> kf_status f = Pending"
proof -
  let ?ps = "sort_key kf_created_at (filter (\<lambda>f. kf_status f = Pending) files)"
  from assms obtain rest where "?ps = f # rest"
    by (auto simp: select_pending_def split: list.splits)
  then have "f \<in> set ?ps" by simp
  then show ?thesis by simp
qed

text \<open>
  C5, as stated, fails. On a queue with one pending text file of one chunk, with every
  external call succeeding, the worker inserts the chunk and marks the file \<open>completed\<close>;
  the row of the file is as before but for its status, and holds no count of chunks: the
  table has no column for one.
\<close>

theorem worker_no_chunk_count_counterexample:
  "processOne example_env example_store =
     \<lparr> store_files =
         [\<lparr> kf_id = ''f1'', kf_knowledge_base_id = ''kb1'', kf_file_path = ''kb1/1_notes.txt'',
            kf_file_name = ''notes.txt'', kf_file_type = Some ''text/plain'',
            kf_status = Completed, kf_error_message = None, kf_created_at = 1 \<rparr>],
       store_documents =
         [\<lparr> doc_id = ''d'', doc_knowledge_base_id = ''kb1'', doc_file_id = Some ''f1'',
            doc_content = ''alpha beta'',
            doc_metadata = [(''fileName'', JStr ''notes.txt''), (''source'', JStr ''kb1/1_notes.txt''),
                            (''pageCount'', JNum 1), (''loc'', JNull), (''chunkIndex'', JNum 0),
                            (''totalChunks'', JNum 1)],
            doc_embedding = Some [1, 0] \<rparr>] \<rparr>
   \<and> column_exists (SetChunkCount 1) = False"
proof -
  have sp: "select_pending [example_file] = Some example_file"
    by (simp add: select_pending_def example_file_def)
  have "processOne example_env example_store =
     \<lparr> store_files = [example_file \<lparr> kf_status := Completed \<rparr>],
       store_documents =
         [\<lparr> doc_id = ''d'', doc_knowledge_base_id = ''kb1'', doc_file_id = Some ''f1'',
            doc_content = ''alpha beta'',
            doc_metadata = [(''fileName'', JStr ''notes.txt''), (''source'', JStr ''kb1/1_notes.txt''),
                            (''pageCount'', JNum 1), (''loc'', JNull), (''chunkIndex'', JNum 0),
                            (''totalChunks'', JNum 1)],
            doc_embedding = Some [1, 0] \<rparr>] \<rparr>"
    by (simp add: processOne_def example_store_def sp Let_def update_file_def)
       (simp add: example_env_def example_file_def worker_parse_def starts_with_def
          embed_and_insert_def join_def chunk_rows_def Let_def update_file_def)
  then show ?thesis by (simp add: example_file_def)
qed

text \<open>
  C5, amended. When the worker finds a pending file and the download, the parser, the
  splitter, the embedding provider and the batch insert all succeed, it appends one row
  per chunk, with the text of the chunk, the id of the file and the id of its knowledge
  base, and its last update marks the file \<open>completed\<close>: every row of \<open>knowledge_files\<close> is
  as before but for the status of the rows with the id of the file. No count of chunks is
  recorded.
\<close>

theorem worker_success_marks_completed:
  assumes "select_pending (store_files store) = Some f"
    and "env_download env = Inr downloaded"
    and "worker_parse env f downloaded = Inr pages"
    and "join newline2 pages \<noteq> []"
    and "env_splitter env (join newline2 pages) = splitDocs"
    and "splitDocs \<noteq> []"
    and "env_embed env (map fst splitDocs) = Inr vectors"
    and "env_insert_error env = None"
  shows "\<exists>rows.
      processOne env store =
        \<lparr> store_files = map (\<lambda>g. if kf_id g = kf_id f then g \<lparr> kf_status := Completed \<rparr> else g)
                            (store_files store),
          store_documents = store_documents store @ rows \<rparr>
    \<and> length rows = length splitDocs
    \<and> map doc_content rows = map fst splitDocs
    \<and> (\<forall>r \<in> set rows. doc_file_id r = Some (kf_id f)
                        \<and> doc_knowledge_base_id r = kf_knowledge_base_id f)
    \<and> f \<in> set (store_files store) \<and> kf_status f = Pending"
proof -
  let ?meta = "[(''fileName'', JStr (kf_file_name f)), (''source'', JStr (kf_file_path f)),
                (''pageCount'', JNum (real (length pages)))]"
  let ?rows = "chunk_rows env (kf_knowledge_base_id f) (kf_id f) ?meta splitDocs vectors"
  have ei: "embed_and_insert env (kf_knowledge_base_id f) (kf_id f) ?meta pages = Inr ?rows"
    using assms(4-8) by (simp add: embed_and_insert_def Let_def)
  have p: "processOne env store =
        \<lparr> store_files = map (\<lambda>g. if kf_id g = kf_id f then g \<lparr> kf_status := Completed \<rparr> else g)
                            (store_files store),
          store_documents = store_documents store @ ?rows \<rparr>"
    using assms(1-3) ei
    by (cases store) (simp add: processOne_def Let_def update_file_twice)
  have l: "length ?rows = length splitDocs"
    by (simp add: chunk_rows_def)
  have c: "map doc_content ?rows = map fst splitDocs"
    by (simp add: chunk_rows_def o_def map_nth_apply)
  have i: "\<forall>r \<in> set ?rows. doc_file_id r = Some (kf_id f)
                        \<and> doc_knowledge_base_id r = kf_knowledge_base_id f"
    by (auto simp: chunk_rows_def)
  from p l c i select_pending_Some[OF assms(1)] show ?thesis by blast
qed

theorem worker_success_marks_completed_witness:
  "\<exists>rows.
      processOne example_env example_store =
        \<lparr> store_files = [example_file \<lparr> kf_status := Completed \<rparr>],
          store_documents = rows \<rparr>
    \<and> map doc_content rows = [''alpha beta'']"
proof -
  have sp: "select_pending (store_files example_store) = Some example_file"
    by (simp add: select_pending_def example_store_def example_file_def)
  have dl: "env_download example_env = Inr \<lparr> blob_type = ''text/plain'', blob_text = ''alpha beta'' \<rparr>"
    by (simp add: example_env_def)
  have pa: "worker_parse example_env example_file
              \<lparr> blob_type = ''text/plain'', blob_text = ''alpha beta'' \<rparr> = Inr [''alpha beta'']"
    by (simp add: worker_parse_def example_file_def starts_with_def)
  have jo: "join newline2 [''alpha beta''] \<noteq> []"
    by (simp add: join_def)
  have sd: "env_splitter example_env (join newline2 [''alpha beta'']) = [(''alpha beta'', JNull)]"
    by (simp add: example_env_def join_def)
  have ne: "[(''alpha beta'', JNull)] \<noteq> []" by simp
  have em: "env_embed example_env (map fst [(''alpha beta'', JNull)]) = Inr [[1, 0]]"
    by (simp add: example_env_def)
  have ie: "env_insert_error example_env = None"
    by (simp add: example_env_def)
  from worker_success_marks_completed[OF sp dl pa jo sd ne em ie]
  show ?thesis
    by (elim exE conjE) (simp add: example_store_def)
qed

text \<open>
  \<open>processDocumentTask\<close> of the older copy of the knowledge function on the same file and
  content: the chunk is inserted, and the update that names \<open>chunk_count\<close> changes nothing,
  so the file stays \<open>processing\<close>.
\<close>

lemma task_update_rejected:
  "map kf_status (store_files
      (processDocumentTask example_env (example_file \<lparr> kf_status := Processing \<rparr>)
         (Inl ''alpha beta'') example_processing_store)) = [Processing]
   \<and> map doc_content (store_documents
      (processDocumentTask example_env (example_file \<lparr> kf_status := Processing \<rparr>)
         (Inl ''alpha beta'') example_processing_store)) = [''alpha beta'']"
  by (simp add: processDocumentTask_def Let_def task_parse_def embed_and_insert_def join_def
      chunk_rows_def update_file_def example_env_def example_file_def example_processing_store_def)


section \<open>Properties of the claim step\<close>

lemma update_file_status:
  assumes "g \<in> set (update_file fid [SetStatus Processing] files)"
    and "kf_id g = fid"
  shows "kf_status g = Processing"
  using assms
proof (induction files)
  case Nil
  then show ?case by (simp add: update_file_Nil)
next
  case (Cons f fs)
  show ?case
  proof (cases "kf_id f = fid")
    case True
    then show ?thesis using Cons by (auto simp: update_file_status_Cons)
  next
    case False
    then show ?thesis using Cons by (auto simp: update_file_status_Cons)
  qed
qed

lemma status_of_distinct:
  assumes "distinct (map kf_id files)" and "f \<in> set files"
  shows "status_of files (kf_id f) = Some (kf_status f)"
  using assms
proof (induction files)
  case Nil
  then show ?case by simp
next
  case (Cons g gs)
  then show ?case
    by (cases "kf_id g = kf_id f") (auto simp: status_of_def image_iff)
qed

lemma status_of_claimed:
  assumes "f \<in> set files"
  shows "status_of (update_file (kf_id f) [SetStatus Processing] files) (kf_id f)
           = Some Processing"
  using assms
proof (induction files)
  case Nil
  then show ?case by simp
next
  case (Cons g gs)
  show ?case
  proof (cases "kf_id g = kf_id f")
    case True
    then show ?thesis by (simp add: status_of_def update_file_status_Cons)
  next
    case False
    then have "f \<in> set gs" using Cons.prems by auto
    then show ?thesis using False Cons.IH by (simp add: status_of_def update_file_status_Cons)
  qed
qed

lemma select_pending_example:
  "select_pending [example_file] = Some example_file"
  by (simp add: select_pending_def example_file_def)

text \<open>
  C1, as stated, fails: the claim is a select followed by an update by id, with no
  condition on the status. When two workers both select before either updates, both mark
  the same pending file \<open>processing\<close> and both go on to process it.
\<close>

theorem interleaved_claims_counterexample:
  "run_schedule [0, 1, 0, 1] ([example_file], [Idle, Idle])
     = ([example_file \<lparr> kf_status := Processing \<rparr>], [Claimed ''f1'', Claimed ''f1''])"
  by (simp add: select_pending_example update_file_def) (simp add: example_file_def)

text \<open>
  C1, amended. Let the ids of the files be distinct. When the select and the update of a
  worker run with no step of another worker between them, the file it claims was pending
  and is \<open>processing\<close> afterwards, and the next claim never takes the same file: it takes
  another file or finds the queue empty. Two workers that run one after the other so end
  with different files.
\<close>

theorem sequential_claims_distinct:
  assumes "distinct (map kf_id files)"
    and "claim_file files = (files1, Some a)"
    and "claim_file files1 = (files2, r)"
  shows "status_of files a = Some Pending
     \<and> status_of files1 a = Some Processing
     \<and> r \<noteq> Some a
     \<and> run_schedule [0, 0, 1, 1] (files, [Idle, Idle])
         = (files2, [Claimed a, (case r of None \<Rightarrow> QueueEmpty | Some b \<Rightarrow> Claimed b)])"
proof -
  from assms(2) obtain f where f: "select_pending files = Some f" "kf_id f = a"
    "files1 = update_file a [SetStatus Processing] files"
    by (auto simp: claim_file_def split: option.splits)
  have fin: "f \<in> set files" "kf_status f = Pending"
    using select_pending_Some[OF f(1)] by simp_all
  have s0: "status_of files a = Some Pending"
    using status_of_distinct[OF assms(1) fin(1)] f(2) fin(2) by simp
  have s1: "status_of files1 a = Some Processing"
    using status_of_claimed[OF fin(1)] f(2) f(3) by simp
  have r: "r \<noteq> Some a"
  proof
    assume "r = Some a"
    with assms(3) obtain g where g: "select_pending files1 = Some g" "kf_id g = a"
      by (auto simp: claim_file_def split: option.splits)
    have "g \<in> set files1" "kf_status g = Pending"
      using select_pending_Some[OF g(1)] by simp_all
    then show False
      using update_file_status[of g a files] g(2) f(3) by simp
  qed
  have sched: "run_schedule [0, 0, 1, 1] (files, [Idle, Idle])
         = (files2, [Claimed a, (case r of None \<Rightarrow> QueueEmpty | Some b \<Rightarrow> Claimed b)])"
    using f assms(3)
    by (auto simp: claim_file_def split: option.splits)
  from s0 s1 r sched show ?thesis by blast
qed

theorem sequential_claims_distinct_witness:
  "status_of [example_file] ''f1'' = Some Pending
   \<and> run_schedule [0, 0, 1, 1] ([example_file], [Idle, Idle])
       = ([example_file \<lparr> kf_status := Processing \<rparr>], [Claimed ''f1'', QueueEmpty])"
proof -
  have d: "distinct (map kf_id [example_file])" by simp
  have c1: "claim_file [example_file] = ([example_file \<lparr> kf_status := Processing \<rparr>], Some ''f1'')"
    by (simp add: claim_file_def select_pending_example update_file_def)
       (simp add: example_file_def)
  have c2: "claim_file [example_file \<lparr> kf_status := Processing \<rparr>]
              = ([example_file \<lparr> kf_status := Processing \<rparr>], None)"
    by (simp add: claim_file_def select_pending_def example_file_def)
  have th: "status_of [example_file] ''f1'' = Some Pending
     \<and> status_of [example_file \<lparr> kf_status := Processing \<rparr>] ''f1'' = Some Processing
     \<and> None \<noteq> Some ''f1''
     \<and> run_schedule [0, 0, 1, 1] ([example_file], [Idle, Idle])
         = ([example_file \<lparr> kf_status := Processing \<rparr>],
            [Claimed ''f1'', (case None of None \<Rightarrow> QueueEmpty | Some b \<Rightarrow> Claimed b)])"
    by (rule sequential_claims_distinct[OF d c1 c2])
  then show ?thesis
    by (simp only: option.case)
qed

section \<open>Properties of private chats\<close>

text \<open>
  On a database in which the private chat is the only chat the user shares with the
  character, the look-up finds it: the chat is returned with \<open>isNew = false\<close> and nothing is
  written.
\<close>

lemma private_chat_found:
  "createPrivateChat example_create_env example_private_db ''p1'' ''u1'' ''ch1'' ''Azusa'' None
     = \<lparr> result_db = example_private_db,
         result = Inr (\<lparr> cv_id = ''c1'', cv_isGroup = False, cv_name = ''Azusa'', cv_title = ''Azusa'',
                         cv_avatar = None, cv_creatorId = ''u1'' \<rparr>, False) \<rparr>"
  by (simp add: createPrivateChat_def find_existing_def visible_members_def visible_chats_def
      member_allowed_def view_of_def Let_def example_private_db_def example_private_chat_def
      example_author_def)

text \<open>
  C9. The look-up fails to find an existing private chat when the user and the character
  also share a group chat. The request for the member row of the character in the chats of
  the user then yields two rows, \<open>.single()\<close> gives no data, and the filter on
  \<open>is_group = false\<close>, which would have told the two chats apart, is never reached. The
  function creates a second private chat and returns it with \<open>isNew = true\<close>, although a
  private chat between the two exists.
\<close>

theorem private_chat_duplicate:
  "private_chat_between example_group_db ''p1'' ''ch1'' example_private_chat
   \<and> result (createPrivateChat example_create_env example_group_db ''p1'' ''u1'' ''ch1'' ''Azusa'' None)
       = Inr (\<lparr> cv_id = ''c2'', cv_isGroup = False, cv_name = ''Azusa'', cv_title = ''Azusa'',
                cv_avatar = None, cv_creatorId = ''u1'' \<rparr>, True)
   \<and> map chat_id (db_chats (result_db
        (createPrivateChat example_create_env example_group_db ''p1'' ''u1'' ''ch1'' ''Azusa'' None)))
       = [''g1'', ''c1'', ''c2'']
   \<and> map (\<lambda>c. (chat_id c, chat_is_group c)) (db_chats example_group_db)
       = [(''g1'', True), (''c1'', False)]"
proof -
  have fe: "find_existing example_group_db ''p1'' ''ch1'' = None"
    by (simp add: find_existing_def visible_members_def member_allowed_def Let_def
        example_group_db_def example_author_def)
  have pc: "private_chat_between example_group_db ''p1'' ''ch1'' example_private_chat"
    by (simp add: private_chat_between_def is_member_def example_group_db_def
        example_private_chat_def)
  have al: "list_all (member_allowed example_group_db ''p1'')
      [\<lparr> cm_chat_id = ''c2'', cm_member = UserMember ''p1'', cm_role = ''owner'' \<rparr>,
       \<lparr> cm_chat_id = ''c2'', cm_member = CharacterMember ''ch1'', cm_role = ''member'' \<rparr>]"
    by (simp add: member_allowed_def example_group_db_def example_author_def)
  have cr: "createPrivateChat example_create_env example_group_db ''p1'' ''u1'' ''ch1'' ''Azusa'' None
      = \<lparr> result_db = example_group_db
            \<lparr> db_chats := db_chats example_group_db @
                 [\<lparr> chat_id = ''c2'', chat_owner_id = ''p1'', chat_name = ''Azusa'',
                    chat_is_group = False, chat_avatar = None \<rparr>],
              db_members := db_members example_group_db @
                 [\<lparr> cm_chat_id = ''c2'', cm_member = UserMember ''p1'', cm_role = ''owner'' \<rparr>,
                  \<lparr> cm_chat_id = ''c2'', cm_member = CharacterMember ''ch1'', cm_role = ''member'' \<rparr>] \<rparr>,
          result = Inr (\<lparr> cv_id = ''c2'', cv_isGroup = False, cv_name = ''Azusa'', cv_title = ''Azusa'',
                cv_avatar = None, cv_creatorId = ''u1'' \<rparr>, True) \<rparr>"
    using al by (simp add: createPrivateChat_def fe example_create_env_def Let_def view_of_def)
  have ids: "map chat_id (db_chats example_group_db) = [''g1'', ''c1'']"
    by (simp add: example_group_db_def example_group_chat_def example_private_chat_def)
  have grp: "map (\<lambda>c. (chat_id c, chat_is_group c)) (db_chats example_group_db)
       = [(''g1'', True), (''c1'', False)]"
    by (simp add: example_group_db_def example_group_chat_def example_private_chat_def)
  show ?thesis
    by (simp add: cr pc ids grp)
qed
end
